theory Spec2Isabelle
  imports Complex_Main "HOL-Library.Word"
begin

unbundle bit_operations_syntax

section \<open>JavaScript numbers\<close>

text \<open>
  The projection engine computes on JavaScript numbers.  A number is modelled as a real
  or one of the three special values of binary64.  The special values follow IEEE 754
  (NaN is absorbing, \<open>Infinity - Infinity\<close>, \<open>0 * Infinity\<close> and \<open>0 / 0\<close> are NaN,
  every comparison with NaN is false).  Arithmetic on finite values is exact: rounding, and
  overflow of a finite sum or product, are not modelled, and zero carries no sign (every
  zero divisor of this program is a square root or a sum of non-negative terms, that is
  \<open>+0\<close>).  \<open>Math.exp\<close> is the one operation whose range limits are modelled, because the
  control flow of the projectors depends on them: below \<open>-745.13321910194110842\<close> it
  returns \<open>0\<close> and above \<open>709.782712893383973096\<close> it returns \<open>Infinity\<close> (the
  underflow and overflow thresholds of the engine's \<open>exp\<close>; from the first threshold on
  the result is at least the smallest subnormal, hence positive).
\<close>

datatype number = Num real | PInf | NInf | NaN

fun js_neg :: "number \<Rightarrow> number" where
  "js_neg (Num a) = Num (- a)"
| "js_neg PInf = NInf"
| "js_neg NInf = PInf"
| "js_neg NaN = NaN"

fun js_add :: "number \<Rightarrow> number \<Rightarrow> number" where
  "js_add (Num a) (Num b) = Num (a + b)"
| "js_add NaN _ = NaN"
| "js_add _ NaN = NaN"
| "js_add PInf NInf = NaN"
| "js_add NInf PInf = NaN"
| "js_add PInf _ = PInf"
| "js_add _ PInf = PInf"
| "js_add NInf _ = NInf"
| "js_add _ NInf = NInf"

definition js_sub :: "number \<Rightarrow> number \<Rightarrow> number" where
  "js_sub a b = js_add a (js_neg b)"

fun js_mul :: "number \<Rightarrow> number \<Rightarrow> number" where
  "js_mul (Num a) (Num b) = Num (a * b)"
| "js_mul NaN _ = NaN"
| "js_mul _ NaN = NaN"
| "js_mul (Num a) PInf = (if a = 0 then NaN else if 0 < a then PInf else NInf)"
| "js_mul (Num a) NInf = (if a = 0 then NaN else if 0 < a then NInf else PInf)"
| "js_mul PInf (Num b) = (if b = 0 then NaN else if 0 < b then PInf else NInf)"
| "js_mul NInf (Num b) = (if b = 0 then NaN else if 0 < b then NInf else PInf)"
| "js_mul PInf PInf = PInf"
| "js_mul PInf NInf = NInf"
| "js_mul NInf PInf = NInf"
| "js_mul NInf NInf = PInf"

fun js_div :: "number \<Rightarrow> number \<Rightarrow> number" where
  "js_div (Num a) (Num b) =
     (if b \<noteq> 0 then Num (a / b) else if a = 0 then NaN else if 0 < a then PInf else NInf)"
| "js_div NaN _ = NaN"
| "js_div _ NaN = NaN"
| "js_div (Num a) PInf = Num 0"
| "js_div (Num a) NInf = Num 0"
| "js_div PInf (Num b) = (if 0 \<le> b then PInf else NInf)"
| "js_div NInf (Num b) = (if 0 \<le> b then NInf else PInf)"
| "js_div PInf PInf = NaN"
| "js_div PInf NInf = NaN"
| "js_div NInf PInf = NaN"
| "js_div NInf NInf = NaN"

text \<open>The relational operators \<open><\<close>, \<open>>\<close> and the strict inequality \<open>!==\<close>.\<close>

fun js_lt :: "number \<Rightarrow> number \<Rightarrow> bool" where
  "js_lt (Num a) (Num b) = (a < b)"
| "js_lt NaN _ = False"
| "js_lt _ NaN = False"
| "js_lt _ NInf = False"
| "js_lt PInf _ = False"
| "js_lt NInf _ = True"
| "js_lt _ PInf = True"

definition js_gt :: "number \<Rightarrow> number \<Rightarrow> bool" where
  "js_gt a b = js_lt b a"

definition js_strict_neq :: "number \<Rightarrow> number \<Rightarrow> bool" where
  "js_strict_neq a b = (a = NaN \<or> b = NaN \<or> a \<noteq> b)"

fun isFinite :: "number \<Rightarrow> bool" where
  "isFinite (Num a) = True"
| "isFinite _ = False"

fun isNaN :: "number \<Rightarrow> bool" where
  "isNaN NaN = True"
| "isNaN _ = False"

text \<open>The functions of \<open>Math\<close> that the projectors call.\<close>

definition Math_min :: "number \<Rightarrow> number \<Rightarrow> number" where
  "Math_min a b = (if a = NaN \<or> b = NaN then NaN else if js_lt a b then a else b)"

definition Math_max :: "number \<Rightarrow> number \<Rightarrow> number" where
  "Math_max a b = (if a = NaN \<or> b = NaN then NaN else if js_lt a b then b else a)"

fun Math_sqrt :: "number \<Rightarrow> number" where
  "Math_sqrt (Num a) = (if a < 0 then NaN else Num (sqrt a))"
| "Math_sqrt PInf = PInf"
| "Math_sqrt NInf = NaN"
| "Math_sqrt NaN = NaN"

fun Math_exp :: "number \<Rightarrow> number" where
  "Math_exp (Num a) =
     (if a < - 745.13321910194110842 then Num 0
      else if 709.782712893383973096 < a then PInf else Num (exp a))"
| "Math_exp PInf = PInf"
| "Math_exp NInf = Num 0"
| "Math_exp NaN = NaN"

fun Math_log :: "number \<Rightarrow> number" where
  "Math_log (Num a) = (if a < 0 then NaN else if a = 0 then NInf else Num (ln a))"
| "Math_log PInf = PInf"
| "Math_log NInf = NaN"
| "Math_log NaN = NaN"

fun Math_log2 :: "number \<Rightarrow> number" where
  "Math_log2 (Num a) = (if a < 0 then NaN else if a = 0 then NInf else Num (log 2 a))"
| "Math_log2 PInf = PInf"
| "Math_log2 NInf = NaN"
| "Math_log2 NaN = NaN"

fun Math_floor :: "number \<Rightarrow> number" where
  "Math_floor (Num a) = Num (of_int \<lfloor>a\<rfloor>)"
| "Math_floor v = v"

fun Math_sign :: "number \<Rightarrow> number" where
  "Math_sign (Num a) = Num (sgn a)"
| "Math_sign PInf = Num 1"
| "Math_sign NInf = Num (- 1)"
| "Math_sign NaN = NaN"

text \<open>
  \<open>Math.pow\<close>: the projectors call it only with the exponents \<open>b - 1 = 0\<close> and \<open>b = 1\<close>
  of the constant \<open>b = 1.0\<close>.  \<open>Math.pow(x, 0)\<close> is \<open>1\<close> for every \<open>x\<close>, NaN included,
  and \<open>Math.pow(x, 1)\<close> is \<open>x\<close>.  Other exponents are given for a positive finite base.
\<close>

fun Math_pow :: "number \<Rightarrow> number \<Rightarrow> number" where
  "Math_pow x (Num e) =
     (if e = 0 then Num 1 else if e = 1 then x
      else (case x of Num a \<Rightarrow> (if 0 < a then Num (a powr e) else NaN) | _ \<Rightarrow> NaN))"
| "Math_pow x _ = NaN"

text \<open>
  A counting loop \<open>for (let k = 0; k < c; k++)\<close> whose bound is a number: the count of
  rounds it runs, \<open>None\<close> when it never exits (the bound is \<open>Infinity\<close>).
\<close>

fun loop_count :: "number \<Rightarrow> nat option" where
  "loop_count (Num c) = Some (nat \<lceil>c\<rceil>)"
| "loop_count PInf = None"
| "loop_count NInf = Some 0"
| "loop_count NaN = Some 0"

text \<open>
  Reading an array past its end gives \<open>undefined\<close>, which arithmetic turns into NaN.
\<close>

definition js_nth :: "number list \<Rightarrow> nat \<Rightarrow> number" where
  "js_nth xs i = (if i < length xs then xs ! i else NaN)"

text \<open>
  \<open>xs.slice(0, k)\<close>: the end is truncated towards zero to an integer (NaN counts as
  \<open>0\<close>); a negative integer counts from the end of the array.
\<close>

fun slice0 :: "'a list \<Rightarrow> number \<Rightarrow> 'a list" where
  "slice0 xs (Num c) =
     (let e = (if c < 0 then \<lceil>c\<rceil> else \<lfloor>c\<rfloor>)
      in if e < 0 then take (nat (int (length xs) + e)) xs else take (nat e) xs)"
| "slice0 xs PInf = xs"
| "slice0 xs NInf = []"
| "slice0 xs NaN = []"

section \<open>Strings\<close>

text \<open>The decimal rendering of an index in a template literal, and \<open>Number\<close> on it.\<close>

fun decimal :: "nat \<Rightarrow> string" where
  "decimal n =
     (if n < 10 then [char_of (48 + n)]
      else decimal (n div 10) @ [char_of (48 + n mod 10)])"

declare decimal.simps [simp del]

definition Number_of :: "string \<Rightarrow> nat" where
  "Number_of s = foldl (\<lambda>a c. 10 * a + (of_char c - 48)) 0 s"

fun split_dash :: "string \<Rightarrow> string list" where
  "split_dash [] = [[]]"
| "split_dash (c # cs) =
     (if c = CHR ''-'' then [] # split_dash cs
      else (case split_dash cs of [] \<Rightarrow> [[c]] | p # ps \<Rightarrow> (c # p) # ps))"

definition toUpperCase :: "string \<Rightarrow> string" where
  "toUpperCase s =
     map (\<lambda>c. if 97 \<le> (of_char c :: nat) \<and> (of_char c :: nat) \<le> 122
               then char_of ((of_char c :: nat) - 32) else c) s"

section \<open>The seeded random stream (utils/seededRandom)\<close>

text \<open>
  \<open>SeededRandom\<close> keeps its seed as a number and adds \<open>0x6D2B79F5\<close> to it at every
  call without truncating it; the bitwise operators then read it modulo \<open>2^32\<close>.  The
  seed is a non-negative integer, modelled as a natural number; the sum is a binary64 sum,
  exact below \<open>2^53\<close> and rounded to 53 significant bits (to nearest, ties to even) from
  there on.  The 32-bit values are words and \<open>Math.imul\<close> is the product of words.
  \<open>next\<close> returns a real in \<open>[0, 1)\<close> and the advanced seed.
\<close>

type_synonym SeededRandom = nat

fun bit_length :: "nat \<Rightarrow> nat" where
  "bit_length n = (if n = 0 then 0 else Suc (bit_length (n div 2)))"

declare bit_length.simps [simp del]

definition binary64_nat :: "nat \<Rightarrow> nat" where
  "binary64_nat n =
     (let k = bit_length n - 53; q = n div 2 ^ k; r = n mod 2 ^ k
      in if 2 * r < 2 ^ k \<or> (2 * r = 2 ^ k \<and> even q) then q * 2 ^ k else (q + 1) * 2 ^ k)"

definition "next" :: "SeededRandom \<Rightarrow> real \<times> SeededRandom" where
  "next seed =
     (let seed' = binary64_nat (seed + 0x6D2B79F5);
          t0 = (word_of_nat seed' :: 32 word);
          t1 = (t0 XOR drop_bit 15 t0) * (t0 OR 1);
          t2 = t1 XOR (t1 + (t1 XOR drop_bit 7 t1) * (t1 OR 61))
      in (real (unat (t2 XOR drop_bit 14 t2)) / 4294967296, seed'))"

text \<open>
  The eight bytes of a number in a \<open>Float64Array\<close>, least significant first: sign,
  eleven bits of biased exponent, fifty-two bits of fraction.  The exponent of a finite
  non-zero value is found by halving or doubling it into \<open>[1, 2)\<close>; a value that is not
  a binary64 number has its fraction truncated.  \<open>Num 0\<close> is the zero \<open>+0\<close>, all of
  whose bytes are \<open>0\<close>; the type of numbers has no \<open>-0\<close>, so a dataset that holds
  \<open>-0\<close> (whose sign byte is \<open>0x80\<close>, which gives another seed) is not among the
  datasets the theorems range over.
\<close>

fun normalise :: "nat \<Rightarrow> real \<Rightarrow> int \<Rightarrow> real \<times> int" where
  "normalise 0 m e = (m, e)"
| "normalise (Suc fuel) m e =
     (if 2 \<le> m then normalise fuel (m / 2) (e + 1)
      else if m < 1 then normalise fuel (m * 2) (e - 1)
      else (m, e))"

definition float64_bits :: "number \<Rightarrow> 64 word" where
  "float64_bits v =
     (case v of
        NaN \<Rightarrow> 0x7FF8000000000000
      | PInf \<Rightarrow> 0x7FF0000000000000
      | NInf \<Rightarrow> 0xFFF0000000000000
      | Num a \<Rightarrow>
          (if a = 0 then 0
           else let (m, e) = normalise 1100 \<bar>a\<bar> 0;
                    sign = (if a < 0 then push_bit 63 1 else 0);
                    body = (if e < - 1022
                            then word_of_int \<lfloor>\<bar>a\<bar> * 2 ^ 1074\<rfloor>
                            else push_bit 52 (word_of_int (e + 1023))
                                 OR word_of_int \<lfloor>(m - 1) * 2 ^ 52\<rfloor>)
                in sign OR body))"

definition float64_bytes :: "number \<Rightarrow> 8 word list" where
  "float64_bytes v = map (\<lambda>k. ucast (drop_bit (8 * k) (float64_bits v))) [0..<8]"

definition generateSeed :: "number list list \<Rightarrow> nat" where
  "generateSeed embeddings =
     unat (foldl (\<lambda>hash byte. (hash XOR ucast byte) * 0x01000193)
                 (0x811C9DC5 :: 32 word)
                 (concat (map float64_bytes (concat embeddings))))"

text \<open>
  \<open>seededShuffle\<close>: Fisher-Yates from the last position down to 1; position \<open>i\<close> is
  swapped with \<open>floor(rng.next() * (i + 1))\<close>.
\<close>

fun shuffle_from :: "nat \<Rightarrow> 'a list \<Rightarrow> SeededRandom \<Rightarrow> 'a list \<times> SeededRandom" where
  "shuffle_from 0 array rng = (array, rng)"
| "shuffle_from (Suc i') array rng =
     (let i = Suc i';
          (r, rng') = next rng;
          j = nat \<lfloor>r * real (i + 1)\<rfloor>
      in shuffle_from i' (array[i := array ! j, j := array ! i]) rng')"

definition seededShuffle :: "'a list \<Rightarrow> SeededRandom \<Rightarrow> 'a list \<times> SeededRandom" where
  "seededShuffle array rng = shuffle_from (length array - 1) array rng"

section \<open>Documents, points and failures\<close>

text \<open>
  \<open>Document\<close> and \<open>Point2D\<close> of types/embeddings; the fields carry a prefix because
  both interfaces name a field \<open>title\<close> and \<open>text\<close>.
\<close>

record Document =
  doc_title :: string
  doc_text :: string

record Point2D =
  pt_x :: number
  pt_y :: number
  pt_title :: string
  pt_text :: string
  pt_index :: nat

text \<open>
  A projector can fail to return in two ways: reading \<open>embeddings[0].length\<close> of an
  empty dataset throws a \<open>TypeError\<close>, and a counting loop whose bound is
  \<open>Infinity\<close> never exits.
\<close>

datatype failure = TypeError | Diverges

text \<open>\<open>documents[i]?.title || `Document ${i + 1}`\<close> and \<open>documents[i]?.text || ''\<close>.\<close>

definition title_of :: "Document list \<Rightarrow> nat \<Rightarrow> string" where
  "title_of documents i =
     (if i < length documents \<and> doc_title (documents ! i) \<noteq> []
      then doc_title (documents ! i) else ''Document '' @ decimal (i + 1))"

definition text_of :: "Document list \<Rightarrow> nat \<Rightarrow> string" where
  "text_of documents i = (if i < length documents then doc_text (documents ! i) else [])"

definition make_point :: "Document list \<Rightarrow> nat \<Rightarrow> number \<times> number \<Rightarrow> Point2D" where
  "make_point documents i c =
     \<lparr>pt_x = fst c, pt_y = snd c, pt_title = title_of documents i,
      pt_text = text_of documents i, pt_index = i\<rparr>"

text \<open>\<open>options?.field ?? default\<close>.\<close>

definition option_or :: "'o option \<Rightarrow> ('o \<Rightarrow> 'a option) \<Rightarrow> 'a \<Rightarrow> 'a" where
  "option_or options field dflt =
     (case options of None \<Rightarrow> dflt
      | Some opts \<Rightarrow> (case field opts of None \<Rightarrow> dflt | Some v \<Rightarrow> v))"

section \<open>Pairwise distances (shared by tSNE and uMAP)\<close>

definition euclidean :: "nat \<Rightarrow> number list \<Rightarrow> number list \<Rightarrow> number" where
  "euclidean dims vecI vecJ =
     Math_sqrt (foldl (\<lambda>sum d. let diff = js_sub (js_nth vecI d) (js_nth vecJ d)
                                in js_add sum (js_mul diff diff))
                      (Num 0) [0..<dims])"

text \<open>
  The upper triangle is computed and mirrored, the diagonal is \<open>0\<close>; \<open>dims\<close> is the
  width of the first vector.
\<close>

definition distances :: "number list list \<Rightarrow> number list list" where
  "distances embeddings =
     (let n = length embeddings; dims = length (embeddings ! 0)
      in map (\<lambda>i. map (\<lambda>j. if i = j then Num 0
                            else euclidean dims (embeddings ! min i j) (embeddings ! max i j))
                     [0..<n])
             [0..<n])"

text \<open>The indices \<open>j\<close> of a loop \<open>for j < n\<close> that skips \<open>j = i\<close>.\<close>

definition others :: "nat \<Rightarrow> nat \<Rightarrow> nat list" where
  "others n i = filter (\<lambda>j. j \<noteq> i) [0..<n]"

text \<open>The initial layout: two draws per point, each scaled to \<open>(r - 0.5) * 0.01\<close>.\<close>

definition small :: "real \<Rightarrow> number" where
  "small r = js_mul (js_sub (Num r) (Num (1/2))) (Num (1/100))"

fun init_layout :: "nat \<Rightarrow> SeededRandom \<Rightarrow> (number \<times> number) list \<times> SeededRandom" where
  "init_layout 0 rng = ([], rng)"
| "init_layout (Suc k) rng =
     (let (r0, rng0) = next rng;
          (r1, rng1) = next rng0;
          (rest, rng') = init_layout k rng1
      in ((small r0, small r1) # rest, rng'))"

section \<open>The t-SNE projector (utils/algorithms/tSNE)\<close>

record TSNEOptions =
  tsne_perplexity :: "number option"
  tsne_learningRate :: "number option"
  tsne_iterations :: "number option"
  tsne_earlyExaggeration :: "number option"
  tsne_momentum :: "number option"

subsection \<open>Conditional and joint probabilities\<close>

text \<open>
  Row \<open>i\<close> of the Gaussian kernel at bandwidth \<open>sigma\<close>:
  \<open>exp(-(dist * dist) / (2 * sigma * sigma))\<close>, the diagonal entry stays \<open>0\<close>.
\<close>

definition kernel_row :: "number list \<Rightarrow> nat \<Rightarrow> number \<Rightarrow> number list" where
  "kernel_row drow i sigma =
     map (\<lambda>j. if j = i then Num 0
              else Math_exp (js_div (js_neg (js_mul (drow ! j) (drow ! j)))
                                    (js_mul (js_mul (Num 2) sigma) sigma)))
         [0..<length drow]"

definition row_sum :: "number list \<Rightarrow> nat \<Rightarrow> number" where
  "row_sum row i = foldl (\<lambda>acc j. js_add acc (row ! j)) (Num 0) (others (length row) i)"

definition row_entropy :: "number list \<Rightarrow> nat \<Rightarrow> number \<Rightarrow> number" where
  "row_entropy row i sumI =
     foldl (\<lambda>entropy j. let p = js_div (row ! j) sumI
                         in if js_gt p (Num (1 / 10 ^ 10))
                            then js_sub entropy (js_mul p (Math_log p)) else entropy)
           (Num 0) (others (length row) i)"

text \<open>
  The binary search for the bandwidth of point \<open>i\<close>: the state is
  \<open>(sigmaLow, sigmaHigh, sigma)\<close>; \<open>sigma\<close> is the midpoint tried last.
\<close>

fun search_sigma ::
  "nat \<Rightarrow> number list \<Rightarrow> nat \<Rightarrow> number \<Rightarrow> number \<times> number \<times> number
   \<Rightarrow> number \<times> number \<times> number" where
  "search_sigma 0 drow i targetEntropy st = st"
| "search_sigma (Suc k) drow i targetEntropy (sigmaLow, sigmaHigh, sigma) =
     (let sigma' = js_div (js_add sigmaLow sigmaHigh) (Num 2);
          row = kernel_row drow i sigma';
          entropy = row_entropy row i (row_sum row i)
      in if js_gt entropy targetEntropy
         then search_sigma k drow i targetEntropy (sigmaLow, sigma', sigma')
         else search_sigma k drow i targetEntropy (sigma', sigmaHigh, sigma'))"

definition final_sigma :: "number list \<Rightarrow> nat \<Rightarrow> number \<Rightarrow> number" where
  "final_sigma drow i targetEntropy =
     snd (snd (search_sigma 50 drow i targetEntropy (Num (1 / 10 ^ 10), Num 1000, Num 1)))"

text \<open>The kernel row at the final bandwidth, and the row divided by its sum.\<close>

definition final_row :: "number list \<Rightarrow> nat \<Rightarrow> number \<Rightarrow> number list" where
  "final_row drow i targetEntropy = kernel_row drow i (final_sigma drow i targetEntropy)"

definition similarity_row :: "number list \<Rightarrow> nat \<Rightarrow> number \<Rightarrow> number list" where
  "similarity_row drow i targetEntropy =
     (let row = final_row drow i targetEntropy;
          sumI = row_sum row i
      in map (\<lambda>j. if j = i then Num 0 else js_div (row ! j) sumI) [0..<length drow])"

definition tsne_perplexity_of :: "nat \<Rightarrow> TSNEOptions option \<Rightarrow> number" where
  "tsne_perplexity_of n options =
     option_or options tsne_perplexity
       (if n < 30 then Num 5 else if n \<le> 100 then Num 10
        else Math_min (Num 30) (Num (real n - 1)))"

definition similarities :: "number list list \<Rightarrow> TSNEOptions option \<Rightarrow> number list list" where
  "similarities embeddings options =
     (let n = length embeddings;
          dist = distances embeddings;
          targetEntropy = Math_log (tsne_perplexity_of n options)
      in map (\<lambda>i. similarity_row (dist ! i) i targetEntropy) [0..<n])"

text \<open>
  The joint probabilities: \<open>P[i][j] = P[j][i] = (similarities[i][j] +
  similarities[j][i]) / (2 * n)\<close> for \<open>i < j\<close>, \<open>0\<close> on the diagonal.
\<close>

definition joint_P :: "number list list \<Rightarrow> TSNEOptions option \<Rightarrow> number list list" where
  "joint_P embeddings options =
     (let n = length embeddings;
          sim = similarities embeddings options
      in map (\<lambda>i. map (\<lambda>j. if i = j then Num 0
                            else js_div (js_add (sim ! min i j ! max i j) (sim ! max i j ! min i j))
                                        (Num (2 * real n)))
                     [0..<n])
             [0..<n])"

subsection \<open>Gradient descent\<close>

text \<open>
  The Student-t kernel \<open>q = 1 / (1 + distSq)\<close> of two layout points, its sum over the
  pairs \<open>i < j\<close> in loop order, and the normalised entry \<open>Q[i][j]\<close>.
\<close>

definition student_q :: "(number \<times> number) list \<Rightarrow> nat \<Rightarrow> nat \<Rightarrow> number" where
  "student_q Y i j =
     (let dx = js_sub (fst (Y ! i)) (fst (Y ! j));
          dy = js_sub (snd (Y ! i)) (snd (Y ! j));
          distSq = js_add (js_mul dx dx) (js_mul dy dy)
      in js_div (Num 1) (js_add (Num 1) distSq))"

definition sum_Q :: "(number \<times> number) list \<Rightarrow> number" where
  "sum_Q Y =
     foldl (\<lambda>acc (i, j). js_add acc (student_q Y i j)) (Num 0)
           (concat (map (\<lambda>i. map (\<lambda>j. (i, j)) [i + 1..<length Y]) [0..<length Y]))"

definition normal_Q :: "(number \<times> number) list \<Rightarrow> number \<Rightarrow> nat \<Rightarrow> nat \<Rightarrow> number" where
  "normal_Q Y sumQ i j =
     (if i = j then Num 0 else js_div (student_q Y (min i j) (max i j)) sumQ)"

definition gradient_of ::
  "number list list \<Rightarrow> (number \<times> number) list \<Rightarrow> number \<Rightarrow> number \<Rightarrow> nat
   \<Rightarrow> number \<times> number" where
  "gradient_of P Y sumQ exaggeration i =
     foldl (\<lambda>(gx, gy) j.
              let mult = js_sub (js_mul exaggeration (P ! i ! j)) (normal_Q Y sumQ i j);
                  dx = js_sub (fst (Y ! i)) (fst (Y ! j));
                  dy = js_sub (snd (Y ! i)) (snd (Y ! j))
              in (js_add gx (js_mul mult dx), js_add gy (js_mul mult dy)))
           (Num 0, Num 0) (others (length Y) i)"

text \<open>One coordinate of the update of a point: the new gain and the clamped new step.\<close>

definition new_gain :: "number \<Rightarrow> number \<Rightarrow> number \<Rightarrow> number" where
  "new_gain gain grad step =
     (if js_strict_neq (Math_sign grad) (Math_sign step)
      then js_add gain (Num (2 / 10))
      else Math_max (js_mul gain (Num (8 / 10))) (Num (1 / 100)))"

definition new_step :: "number \<Rightarrow> number \<Rightarrow> number \<Rightarrow> number \<Rightarrow> number \<Rightarrow> number" where
  "new_step currentMomentum eta gain grad step =
     (let s = js_sub (js_mul currentMomentum step) (js_mul (js_mul eta gain) grad)
      in Math_max (Num (- 50)) (Math_min (Num 50) s))"

text \<open>
  \<open>Math.random\<close> is the entropy source of the host: a stream \<open>mathRandom\<close> of reals in
  \<open>[0, 1)\<close> that the run does not control, with the count \<open>used\<close> of draws so far.
  The state of the descent is the layout, the gains, the steps and that count.
\<close>

type_synonym descent =
  "(number \<times> number) list \<times> (number \<times> number) list \<times> (number \<times> number) list \<times> nat"

text \<open>
  The position of a point after its step: a non-finite coordinate resets both
  coordinates from \<open>Math.random\<close>, otherwise both are clamped to \<open>[-1000, 1000]\<close>.
\<close>

definition new_position ::
  "(nat \<Rightarrow> real) \<Rightarrow> nat \<Rightarrow> number \<times> number \<Rightarrow> (number \<times> number) \<times> nat" where
  "new_position mathRandom used y =
     (if \<not> isFinite (fst y) \<or> \<not> isFinite (snd y) \<or> isNaN (fst y) \<or> isNaN (snd y)
      then ((small (mathRandom used), small (mathRandom (used + 1))), used + 2)
      else ((Math_max (Num (- 1000)) (Math_min (Num 1000) (fst y)),
             Math_max (Num (- 1000)) (Math_min (Num 1000) (snd y))), used))"

definition update_point ::
  "(nat \<Rightarrow> real) \<Rightarrow> number \<Rightarrow> number \<Rightarrow> (nat \<Rightarrow> number \<times> number) \<Rightarrow> descent \<Rightarrow> nat
   \<Rightarrow> descent" where
  "update_point mathRandom currentMomentum eta gradient st i =
     (case st of (Y, gains, YStep, used) \<Rightarrow>
        let g0 = new_gain (fst (gains ! i)) (fst (gradient i)) (fst (YStep ! i));
            g1 = new_gain (snd (gains ! i)) (snd (gradient i)) (snd (YStep ! i));
            s0 = new_step currentMomentum eta g0 (fst (gradient i)) (fst (YStep ! i));
            s1 = new_step currentMomentum eta g1 (snd (gradient i)) (snd (YStep ! i));
            moved = (js_add (fst (Y ! i)) s0, js_add (snd (Y ! i)) s1);
            (y, used') = new_position mathRandom used moved
        in (Y[i := y], gains[i := (g0, g1)], YStep[i := (s0, s1)], used'))"

definition center :: "(number \<times> number) list \<Rightarrow> (number \<times> number) list" where
  "center Y =
     (let meanX = js_div (foldl (\<lambda>acc y. js_add acc (fst y)) (Num 0) Y) (Num (real (length Y)));
          meanY = js_div (foldl (\<lambda>acc y. js_add acc (snd y)) (Num 0) Y) (Num (real (length Y)))
      in map (\<lambda>y. (js_sub (fst y) meanX, js_sub (snd y) meanY)) Y)"

text \<open>
  Iteration \<open>iter\<close>: the gradient of every point is taken from the layout at the start
  of the iteration, then the points are updated in order and the layout is centred.
\<close>

definition iteration ::
  "(nat \<Rightarrow> real) \<Rightarrow> number list list \<Rightarrow> number \<Rightarrow> number \<Rightarrow> number \<Rightarrow> descent \<Rightarrow> nat
   \<Rightarrow> descent" where
  "iteration mathRandom P momentum eta earlyExaggeration st iter =
     (case st of (Y, gains, YStep, used) \<Rightarrow>
        let n = length Y;
            sumQ = sum_Q Y;
            exaggeration = (if iter < (if n < 200 then 350 else 250)
                            then earlyExaggeration else Num 1);
            currentMomentum = (if iter < 20 then Num (1 / 2) else momentum);
            gradient = gradient_of P Y sumQ exaggeration;
            (Y', gains', YStep', used') =
               foldl (update_point mathRandom currentMomentum eta gradient) st [0..<n]
        in (center Y', gains', YStep', used'))"

definition tSNE ::
  "(nat \<Rightarrow> real) \<Rightarrow> number list list \<Rightarrow> Document list \<Rightarrow> TSNEOptions option
   \<Rightarrow> failure + Point2D list" where
  "tSNE mathRandom embeddings documents options =
     (let n = length embeddings in
      if n = 0 then Inr []
      else if n = 1 then Inr [make_point documents 0 (Num 0, Num 0)]
      else
        let P = joint_P embeddings options;
            rng = generateSeed embeddings;
            Y = fst (init_layout n rng);
            momentum = option_or options tsne_momentum (Num (8 / 10));
            eta = option_or options tsne_learningRate (Num 500);
            gains = replicate n (Num 1, Num 1);
            YStep = replicate n (Num 0, Num 0);
            iterations = option_or options tsne_iterations
                           (if n < 200 then Num 1500 else Num 1000);
            earlyExaggeration = option_or options tsne_earlyExaggeration (Num 4)
        in case loop_count iterations of
             None \<Rightarrow> Inl Diverges
           | Some rounds \<Rightarrow>
               (case foldl (iteration mathRandom P momentum eta earlyExaggeration)
                           (Y, gains, YStep, 0) [0..<rounds] of
                  (Y', _) \<Rightarrow> Inr (map (\<lambda>i. make_point documents i (Y' ! i)) [0..<n])))"

section \<open>The UMAP projector (utils/algorithms/uMAP)\<close>

record UMAPOptions =
  umap_nNeighbors :: "number option"
  umap_nEpochs :: "number option"
  umap_learningRate :: "number option"
  umap_negativeSampleRate :: "number option"

subsection \<open>Neighbours\<close>

definition default_nNeighbors :: "nat \<Rightarrow> number" where
  "default_nNeighbors n =
     (if n < 50 then Math_max (Num 3) (Math_min (Num 8) (Math_floor (Math_sqrt (Num (real n)))))
      else if n < 200
      then Math_floor (js_add (Num 10)
                              (js_div (Math_sqrt (js_sub (Num (real n)) (Num 100))) (Num 3)))
      else Math_min (Num 15) (Math_floor (js_div (Num (real n)) (Num 50))))"

text \<open>
  \<open>neighbors.sort((a, b) => a.dist - b.dist)\<close>: a stable sort; an element moves behind
  another only when the comparator is positive.  (With NaN among the distances the
  comparator is not an order and the result of \<open>sort\<close> depends on the engine.)
\<close>

fun insert_neighbor :: "nat \<times> number \<Rightarrow> (nat \<times> number) list \<Rightarrow> (nat \<times> number) list" where
  "insert_neighbor a [] = [a]"
| "insert_neighbor a (b # bs) =
     (if js_gt (js_sub (snd a) (snd b)) (Num 0) then b # insert_neighbor a bs else a # b # bs)"

definition sort_neighbors :: "(nat \<times> number) list \<Rightarrow> (nat \<times> number) list" where
  "sort_neighbors xs = foldr insert_neighbor xs []"

text \<open>
  The nearest neighbours of point \<open>i\<close> as pairs of index and distance
  (\<open>knnIndices[i]\<close> and \<open>knnDistances[i]\<close> side by side).
\<close>

definition knn :: "number list list \<Rightarrow> number \<Rightarrow> nat \<Rightarrow> (nat \<times> number) list" where
  "knn dists nNeighbors i =
     (let neighbors = sort_neighbors (map (\<lambda>j. (j, dists ! i ! j)) (others (length dists) i));
          k = Math_min nNeighbors (Num (real (length neighbors)))
      in slice0 neighbors k)"

subsection \<open>The fuzzy simplicial set\<close>

fun search_umap_sigma :: "nat \<Rightarrow> number list \<Rightarrow> number \<Rightarrow> number \<times> number \<Rightarrow> number \<times> number" where
  "search_umap_sigma 0 neighborDists targetSum st = st"
| "search_umap_sigma (Suc k) neighborDists targetSum (sigmaLow, sigmaHigh) =
     (let sigma = js_div (js_add sigmaLow sigmaHigh) (Num 2);
          sm = foldl (\<lambda>acc d. js_add acc (Math_exp (js_div (js_neg d) sigma))) (Num 0)
                     neighborDists
      in if js_gt sm targetSum
         then search_umap_sigma k neighborDists targetSum (sigmaLow, sigma)
         else search_umap_sigma k neighborDists targetSum (sigma, sigmaHigh))"

definition umap_sigma :: "number list \<Rightarrow> number \<Rightarrow> number" where
  "umap_sigma neighborDists targetSum =
     (case search_umap_sigma 50 neighborDists targetSum (Num (1 / 10 ^ 10), Num 1000) of
        (sigmaLow, sigmaHigh) \<Rightarrow> js_div (js_add sigmaLow sigmaHigh) (Num 2))"

text \<open>
  The graph is a \<open>Map\<close> from the key \<open>`${i}-${nj}`\<close> (smaller index first) to a weight;
  it keeps its keys in insertion order.  \<open>graph.get(key) || 0\<close> is \<open>0\<close> for a missing
  key and for the falsy weights \<open>0\<close> and NaN.
\<close>

type_synonym graph = "(string \<times> number) list"

definition graph_get_or_0 :: "graph \<Rightarrow> string \<Rightarrow> number" where
  "graph_get_or_0 g key =
     (case map_of g key of None \<Rightarrow> Num 0
      | Some w \<Rightarrow> (if w = NaN \<or> w = Num 0 then Num 0 else w))"

fun graph_set :: "graph \<Rightarrow> string \<Rightarrow> number \<Rightarrow> graph" where
  "graph_set [] key w = [(key, w)]"
| "graph_set ((k, v) # g) key w = (if k = key then (k, w) # g else (k, v) # graph_set g key w)"

definition edge_key :: "nat \<Rightarrow> nat \<Rightarrow> string" where
  "edge_key i nj =
     (if i < nj then decimal i @ ''-'' @ decimal nj else decimal nj @ ''-'' @ decimal i)"

definition add_membership :: "number \<Rightarrow> nat \<Rightarrow> graph \<Rightarrow> nat \<times> number \<Rightarrow> graph" where
  "add_membership sigma i g nb =
     (let pGivenJ = Math_exp (js_div (js_neg (snd nb)) sigma);
          key = edge_key i (fst nb);
          existing = graph_get_or_0 g key
      in graph_set g key (js_sub (js_add existing pGivenJ) (js_mul existing pGivenJ)))"

definition fuzzy_graph :: "(nat \<times> number) list list \<Rightarrow> number \<Rightarrow> graph" where
  "fuzzy_graph knns targetSum =
     foldl (\<lambda>g i. foldl (add_membership (umap_sigma (map snd (knns ! i)) targetSum) i)
                         g (knns ! i))
           [] [0..<length knns]"

text \<open>The edges \<open>(source, target, weight)\<close>: the entries of the graph of positive weight.\<close>

definition edges_of :: "graph \<Rightarrow> (nat \<times> nat \<times> number) list" where
  "edges_of g =
     map (\<lambda>(key, weight). (Number_of (split_dash key ! 0), Number_of (split_dash key ! 1), weight))
         (filter (\<lambda>(key, weight). js_gt weight (Num 0)) g)"

definition umap_edges :: "number list list \<Rightarrow> UMAPOptions option \<Rightarrow> (nat \<times> nat \<times> number) list" where
  "umap_edges embeddings options =
     (let n = length embeddings;
          nNeighbors = option_or options umap_nNeighbors (default_nNeighbors n);
          dist = distances embeddings;
          knns = map (knn dist nNeighbors) [0..<n]
      in edges_of (fuzzy_graph knns (Math_log2 nNeighbors)))"

subsection \<open>Stochastic gradient descent\<close>

text \<open>Coordinate \<open>d\<close> of a layout point, read and written.\<close>

definition coord :: "(number \<times> number) list \<Rightarrow> nat \<Rightarrow> nat \<Rightarrow> number" where
  "coord Y j d = (if d = 0 then fst (Y ! j) else snd (Y ! j))"

definition set_coord :: "(number \<times> number) list \<Rightarrow> nat \<Rightarrow> nat \<Rightarrow> number \<Rightarrow> (number \<times> number) list" where
  "set_coord Y j d v = Y[j := (if d = 0 then (v, snd (Y ! j)) else (fst (Y ! j), v))]"

definition dist_sq :: "(number \<times> number) list \<Rightarrow> nat \<Rightarrow> nat \<Rightarrow> number" where
  "dist_sq Y j k =
     foldl (\<lambda>acc d. let diff = js_sub (coord Y j d) (coord Y k d)
                     in js_add acc (js_mul diff diff))
           (Num 0) [0..<2]"

text \<open>
  Both force loops: for \<open>d = 0, 1\<close> the point \<open>j\<close> moves by \<open>alpha * grad * weight\<close> and
  the point \<open>k\<close> by its opposite, \<open>grad = coeff * (Y[j][d] - Y[k][d])\<close>.
\<close>

definition move_pair ::
  "number \<Rightarrow> number \<Rightarrow> number \<Rightarrow> nat \<Rightarrow> nat \<Rightarrow> (number \<times> number) list
   \<Rightarrow> (number \<times> number) list" where
  "move_pair coeff alpha weight j k Y =
     foldl (\<lambda>Y d. let diff = js_sub (coord Y j d) (coord Y k d);
                       grad = js_mul coeff diff;
                       Y1 = set_coord Y j d (js_add (coord Y j d) (js_mul (js_mul alpha grad) weight))
                   in set_coord Y1 k d (js_sub (coord Y1 k d) (js_mul (js_mul alpha grad) weight)))
           Y [0..<2]"

definition attract :: "number \<Rightarrow> number \<Rightarrow> nat \<Rightarrow> nat \<Rightarrow> (number \<times> number) list \<Rightarrow> (number \<times> number) list" where
  "attract alpha weight j k Y =
     (let a = Num 1; b = Num 1;
          currentDistSq = dist_sq Y j k;
          gradCoeff = js_div (js_mul (js_mul (js_mul (Num (- 2)) a) b)
                                     (Math_pow currentDistSq (js_sub b (Num 1))))
                             (js_add a (Math_pow currentDistSq b))
      in move_pair gradCoeff alpha weight j k Y)"

definition repel :: "number \<Rightarrow> number \<Rightarrow> nat \<Rightarrow> nat \<Rightarrow> (number \<times> number) list \<Rightarrow> (number \<times> number) list" where
  "repel alpha weight j negIdx Y =
     (let a = Num 1; b = Num 1;
          currentDistSq = dist_sq Y j negIdx;
          negGradCoeff = js_div (js_mul (Num 2) b)
                                (js_mul (js_add (Num (1 / 1000)) currentDistSq)
                                        (js_add a (Math_pow currentDistSq b)))
      in move_pair negGradCoeff alpha weight j negIdx Y)"

text \<open>The negative samples of one edge: \<open>rounds\<close> draws of a point to push away.\<close>

fun negative_samples ::
  "nat \<Rightarrow> number \<Rightarrow> number \<Rightarrow> nat \<Rightarrow> nat \<Rightarrow> (number \<times> number) list \<times> SeededRandom
   \<Rightarrow> (number \<times> number) list \<times> SeededRandom" where
  "negative_samples 0 alpha weight j k st = st"
| "negative_samples (Suc rounds) alpha weight j k (Y, rng) =
     (let (r, rng') = next rng;
          negIdx = nat \<lfloor>r * real (length Y)\<rfloor>
      in negative_samples rounds alpha weight j k
           (if negIdx = j \<or> negIdx = k then (Y, rng') else (repel alpha weight j negIdx Y, rng')))"

definition process_edge ::
  "nat \<Rightarrow> number \<Rightarrow> (nat \<times> nat \<times> number) list \<Rightarrow> (number \<times> number) list \<times> SeededRandom \<Rightarrow> nat
   \<Rightarrow> (number \<times> number) list \<times> SeededRandom" where
  "process_edge negRounds alpha edges st edgeIdx =
     (case edges ! edgeIdx of (j, k, weight) \<Rightarrow>
        negative_samples negRounds alpha weight j k (attract alpha weight j k (fst st), snd st))"

text \<open>
  One epoch: the edge order is shuffled (the shuffled order carries over to the next
  epoch), the learning rate is \<open>learningRate * (1 - epoch / nEpochs)\<close>.
\<close>

definition epoch_step ::
  "nat \<Rightarrow> number \<Rightarrow> number \<Rightarrow> (nat \<times> nat \<times> number) list
   \<Rightarrow> (number \<times> number) list \<times> SeededRandom \<times> nat list \<Rightarrow> nat
   \<Rightarrow> (number \<times> number) list \<times> SeededRandom \<times> nat list" where
  "epoch_step negRounds learningRate nEpochs edges st epoch =
     (case st of (Y, rng, indices) \<Rightarrow>
        let (indices', rng') = seededShuffle indices rng;
            alpha = js_mul learningRate (js_sub (Num 1) (js_div (Num (real epoch)) nEpochs));
            (Y', rng'') = foldl (process_edge negRounds alpha edges) (Y, rng')
                                (map (\<lambda>idx. indices' ! idx) [0..<length edges])
        in (Y', rng'', indices'))"

definition uMAP ::
  "number list list \<Rightarrow> Document list \<Rightarrow> UMAPOptions option \<Rightarrow> failure + Point2D list" where
  "uMAP embeddings documents options =
     (let n = length embeddings in
      if n = 0 then Inr []
      else if n = 1 then Inr [make_point documents 0 (Num 0, Num 0)]
      else
        let rng = generateSeed embeddings;
            nEpochs = option_or options umap_nEpochs (if n < 1000 then Num 500 else Num 200);
            learningRate = option_or options umap_learningRate (Num 1);
            negativeSampleRate = option_or options umap_negativeSampleRate (Num 5);
            edges = umap_edges embeddings options;
            (Y, rng') = init_layout n rng;
            indices = [0..<length edges]
        in case loop_count nEpochs of
             None \<Rightarrow> Inl Diverges
           | Some epochs \<Rightarrow>
               (case (if epochs = 0 \<or> edges = [] then Some 0 else loop_count negativeSampleRate) of
                  None \<Rightarrow> Inl Diverges
                | Some negRounds \<Rightarrow>
                    (case foldl (epoch_step negRounds learningRate nEpochs edges)
                                (Y, rng', indices) [0..<epochs] of
                       (Y', _) \<Rightarrow> Inr (map (\<lambda>i. make_point documents i (Y' ! i)) [0..<n]))))"

section \<open>The PCA projector (utils/algorithms/incrementalPCA)\<close>

record PCAOptions =
  pca_powerIterations :: "number option"

definition dot :: "nat \<Rightarrow> number list \<Rightarrow> number list \<Rightarrow> number" where
  "dot dims u v = foldl (\<lambda>acc j. js_add acc (js_mul (u ! j) (v ! j))) (Num 0) [0..<dims]"

text \<open>\<open>v * (1 / sqrt(v . v))\<close>, with no guard on the norm.\<close>

definition normalize :: "nat \<Rightarrow> number list \<Rightarrow> number list" where
  "normalize dims v =
     (let norm = Math_sqrt (dot dims v v); invNorm = js_div (Num 1) norm
      in map (\<lambda>j. js_mul (v ! j) invNorm) [0..<dims])"

text \<open>\<open>C * w = sum_i x_i * (x_i . w)\<close> over the centred data, accumulated per sample.\<close>

definition cov_times :: "nat \<Rightarrow> number list list \<Rightarrow> number list \<Rightarrow> number list" where
  "cov_times dims centeredData w =
     foldl (\<lambda>acc centered.
              let dt = dot dims centered w
              in map (\<lambda>j. js_add (acc ! j) (js_mul (centered ! j) dt)) [0..<dims])
           (replicate dims (Num 0)) centeredData"

definition power_round ::
  "nat \<Rightarrow> number list list \<Rightarrow> number list \<times> number list \<Rightarrow> number list \<times> number list" where
  "power_round dims centeredData pcs =
     (let pc1 = normalize dims (cov_times dims centeredData (fst pcs));
          Cpc2 = cov_times dims centeredData (snd pcs);
          dot12 = dot dims pc1 Cpc2;
          orth = map (\<lambda>j. js_sub (Cpc2 ! j) (js_mul dot12 (pc1 ! j))) [0..<dims]
      in (pc1, normalize dims orth))"

definition pattern :: "number list" where
  "pattern = [Num 1, Num 0, Num (- 1), Num 0]"

definition incrementalPCA ::
  "number list list \<Rightarrow> Document list \<Rightarrow> PCAOptions option \<Rightarrow> failure + Point2D list" where
  "incrementalPCA embeddings documents options =
     (let n = length embeddings in
      if n = 0 then Inl TypeError
      else
        let dims = length (embeddings ! 0);
            pc1 = normalize dims (map (\<lambda>i. pattern ! (i mod length pattern)) [0..<dims]);
            pc2 = normalize dims (map (\<lambda>i. pattern ! ((i + 1) mod length pattern)) [0..<dims]);
            totals = foldl (\<lambda>mean vec. map (\<lambda>j. js_add (mean ! j) (js_nth vec j)) [0..<dims])
                         (replicate dims (Num 0)) embeddings;
            mean = map (\<lambda>j. js_div (totals ! j) (Num (real n))) [0..<dims];
            centeredData = map (\<lambda>vec. map (\<lambda>j. js_sub (js_nth vec j) (mean ! j)) [0..<dims])
                               embeddings;
            numIterations = option_or options pca_powerIterations (Num 20)
        in case loop_count numIterations of
             None \<Rightarrow> Inl Diverges
           | Some rounds \<Rightarrow>
               (case foldl (\<lambda>pcs iter. power_round dims centeredData pcs) (pc1, pc2) [0..<rounds] of
                  (pc1', pc2') \<Rightarrow>
                    Inr (map (\<lambda>i. make_point documents i
                                      (dot dims (centeredData ! i) pc1',
                                       dot dims (centeredData ! i) pc2'))
                             [0..<n])))"

section \<open>The orchestrator (utils/algorithms/projectTo2D)\<close>

datatype AlgorithmType = Auto | Umap | Tsne | Pca

record AlgorithmParams =
  umap :: "UMAPOptions option"
  tsne :: "TSNEOptions option"
  pca :: "PCAOptions option"

record ProjectTo2DOptions =
  opt_algorithm :: AlgorithmType
  opt_params :: "AlgorithmParams option"

record ProjectionResult =
  points :: "Point2D list"
  algorithm :: string
  timeMs :: number
  warning :: "string option"

fun algorithm_name :: "AlgorithmType \<Rightarrow> string" where
  "algorithm_name Auto = ''auto''"
| "algorithm_name Umap = ''umap''"
| "algorithm_name Tsne = ''tsne''"
| "algorithm_name Pca = ''pca''"

text \<open>\<open>options.params?.field\<close>.\<close>

definition params_of :: "ProjectTo2DOptions \<Rightarrow> (AlgorithmParams \<Rightarrow> 'a option) \<Rightarrow> 'a option" where
  "params_of options field = (case opt_params options of None \<Rightarrow> None | Some ps \<Rightarrow> field ps)"

text \<open>
  \<open>startTime\<close> and \<open>endTime\<close> are the two readings of \<open>performance.now()\<close>;
  \<open>mathRandom\<close> is the host's \<open>Math.random\<close>.  The writes to the console are not
  modelled; the scan that counts NaN and infinite points only feeds them.
\<close>

definition projectTo2D ::
  "(nat \<Rightarrow> real) \<Rightarrow> number \<Rightarrow> number \<Rightarrow> number list list \<Rightarrow> Document list
   \<Rightarrow> ProjectTo2DOptions \<Rightarrow> failure + ProjectionResult" where
  "projectTo2D mathRandom startTime endTime embeddings documents options =
     (if length embeddings = 0
      then Inr \<lparr>points = [], algorithm = ''No data'', timeMs = Num 0, warning = None\<rparr>
      else if length embeddings = 1
      then Inr \<lparr>points = [\<lparr>pt_x = Num 0, pt_y = Num 0, pt_title = title_of documents 0,
                             pt_text = text_of documents 0, pt_index = 0\<rparr>],
                 algorithm = ''Single point'', timeMs = Num 0, warning = None\<rparr>
      else
        let n = length embeddings;
            algo = (if opt_algorithm options = Auto
                    then (if n > 8000 then Pca else Umap)
                    else opt_algorithm options);
            warn =
              (if algo = Pca \<and> n \<le> 1000
               then Some (''PCA is recommended for datasets > 8000 samples. Current: ''
                          @ decimal n
                          @ '' samples. Consider using UMAP or t-SNE for better clustering.'')
               else if algo = Umap \<and> n > 8000
               then Some (''UMAP may be slow for datasets > 8000 samples. Current: ''
                          @ decimal n
                          @ '' samples. Consider using PCA for faster results.'')
               else if algo = Tsne \<and> n > 1000
               then Some (''t-SNE is recommended for datasets < 1000 samples. Current: ''
                          @ decimal n
                          @ '' samples. Consider using UMAP for better performance.'')
               else None);
            (algo', outcome) =
              (case algo of
                 Umap \<Rightarrow> (algo, uMAP embeddings documents (params_of options umap))
               | Tsne \<Rightarrow> (algo, tSNE mathRandom embeddings documents (params_of options tsne))
               | Pca \<Rightarrow> (algo, incrementalPCA embeddings documents (params_of options pca))
               | Auto \<Rightarrow> (Umap, uMAP embeddings documents (params_of options umap)))
        in case outcome of
             Inl f \<Rightarrow> Inl f
           | Inr pts \<Rightarrow>
               Inr \<lparr>points = pts, algorithm = toUpperCase (algorithm_name algo'),
                    timeMs = js_sub endTime startTime, warning = warn\<rparr>)"

section \<open>Notions used in the statements\<close>

text \<open>
  \<open>ran result outcome label\<close>: the orchestrator's result is the given projector's
  outcome: the same failure, or the projector's points unchanged under the given label.
\<close>

definition ran :: "failure + ProjectionResult \<Rightarrow> failure + Point2D list \<Rightarrow> string \<Rightarrow> bool" where
  "ran result outcome label =
     (case (result, outcome) of
        (Inl f, Inl f') \<Rightarrow> f = f'
      | (Inr r, Inr pts) \<Rightarrow> points r = pts \<and> algorithm r = label
      | _ \<Rightarrow> False)"

text \<open>
  \<open>in_input_order documents n pts\<close>: the points are \<open>n\<close> in number, and the point at
  position \<open>i\<close> has index \<open>i\<close> and the title and text of document \<open>i\<close>.
\<close>

definition in_input_order :: "Document list \<Rightarrow> nat \<Rightarrow> Point2D list \<Rightarrow> bool" where
  "in_input_order documents n pts =
     (map (\<lambda>p. (pt_index p, pt_title p, pt_text p)) pts =
      map (\<lambda>i. (i, title_of documents i, text_of documents i)) [0..<n])"

text \<open>\<open>bounded_by options field\<close>: the loop bound \<open>options?.field\<close> is not \<open>Infinity\<close>.\<close>

definition bounded_by :: "'o option \<Rightarrow> ('o \<Rightarrow> number option) \<Rightarrow> bool" where
  "bounded_by options field = (option_or options field (Num 0) \<noteq> PInf)"

text \<open>
  Ranges of numbers: a square root (non-negative, infinite or NaN), a membership
  strength (in \<open>[0, 1]\<close>, or NaN), a bandwidth (finite and positive).
\<close>

definition nonneg :: "number \<Rightarrow> bool" where
  "nonneg d = (case d of Num r \<Rightarrow> 0 \<le> r | NInf \<Rightarrow> False | _ \<Rightarrow> True)"

definition unit_or_NaN :: "number \<Rightarrow> bool" where
  "unit_or_NaN w = (case w of Num r \<Rightarrow> 0 \<le> r \<and> r \<le> 1 | NaN \<Rightarrow> True | _ \<Rightarrow> False)"

definition positive_finite :: "number \<Rightarrow> bool" where
  "positive_finite s = (case s of Num r \<Rightarrow> 0 < r | _ \<Rightarrow> False)"

text \<open>A layout point both of whose coordinates are finite.\<close>

definition finite_point :: "number \<times> number \<Rightarrow> bool" where
  "finite_point y = (isFinite (fst y) \<and> isFinite (snd y))"

text \<open>A bandwidth of the t-SNE search: finite, positive and at most \<open>1000\<close>.\<close>

definition bandwidth :: "number \<Rightarrow> bool" where
  "bandwidth s = (case s of Num r \<Rightarrow> 0 < r \<and> r \<le> 1000 | _ \<Rightarrow> False)"




text \<open>
  The update of a point in an iteration of t-SNE.  \<open>stepped Y YStep' i\<close> is the position
  of point \<open>i\<close> after \<open>Y[i] += YStep[i]\<close>, from the layout at the start of the iteration
  and the steps at its end; \<open>clamped\<close> is the clamp of a position to \<open>[-1000, 1000]\<close>;
  \<open>resets_before Y YStep' i\<close> counts the points before \<open>i\<close> whose stepped position has a
  NaN or infinite coordinate; \<open>reset_range\<close> is the range \<open>[-0.005, 0.005)\<close> of
  \<open>(Math.random() - 0.5) * 0.01\<close>; \<open>has_NaN\<close> holds of a step with a NaN coordinate.
\<close>

definition stepped ::
  "(number \<times> number) list \<Rightarrow> (number \<times> number) list \<Rightarrow> nat \<Rightarrow> number \<times> number" where
  "stepped Y YStep' i =
     (js_add (fst (Y ! i)) (fst (YStep' ! i)), js_add (snd (Y ! i)) (snd (YStep' ! i)))"

definition clamped :: "number \<times> number \<Rightarrow> number \<times> number" where
  "clamped y = (Math_max (Num (- 1000)) (Math_min (Num 1000) (fst y)),
                Math_max (Num (- 1000)) (Math_min (Num 1000) (snd y)))"

definition resets_before ::
  "(number \<times> number) list \<Rightarrow> (number \<times> number) list \<Rightarrow> nat \<Rightarrow> nat" where
  "resets_before Y YStep' i =
     length (filter (\<lambda>j. \<not> finite_point (stepped Y YStep' j)) [0..<i])"

definition reset_range :: "number \<Rightarrow> bool" where
  "reset_range v = (case v of Num r \<Rightarrow> - (1 / 200) \<le> r \<and> r < 1 / 200 | _ \<Rightarrow> False)"

definition has_NaN :: "number \<times> number \<Rightarrow> bool" where
  "has_NaN s = (isNaN (fst s) \<or> isNaN (snd s))"

section \<open>Basic facts about numbers\<close>

lemma js_add_NaN [simp]: "js_add a NaN = NaN" "js_add NaN a = NaN"
  by (cases a; simp)+

lemma js_sub_NaN [simp]: "js_sub a NaN = NaN" "js_sub NaN a = NaN"
  by (simp_all add: js_sub_def)

lemma js_mul_NaN [simp]: "js_mul a NaN = NaN" "js_mul NaN a = NaN"
  by (cases a; simp)+

lemma js_div_NaN [simp]: "js_div a NaN = NaN" "js_div NaN a = NaN"
  by (cases a; simp)+

lemma js_lt_NaN [simp]: "\<not> js_lt a NaN" "\<not> js_lt NaN a"
  by (cases a; simp)+

lemma js_gt_NaN [simp]: "\<not> js_gt a NaN" "\<not> js_gt NaN a"
  by (simp_all add: js_gt_def)

lemma Math_min_NaN [simp]: "Math_min a NaN = NaN" "Math_min NaN a = NaN"
  by (simp_all add: Math_min_def)

lemma Math_max_NaN [simp]: "Math_max a NaN = NaN" "Math_max NaN a = NaN"
  by (simp_all add: Math_max_def)

lemma js_sub_Num [simp]: "js_sub (Num a) (Num b) = Num (a - b)"
  by (simp add: js_sub_def)

lemma js_gt_Num [simp]: "js_gt (Num a) (Num b) = (b < a)"
  by (simp add: js_gt_def)

lemma isFinite_iff: "isFinite a = (\<exists>r. a = Num r)"
  by (cases a) auto

lemma js_add_not_finite:
  "\<not> isFinite a \<Longrightarrow> \<not> isFinite (js_add a b)" "\<not> isFinite b \<Longrightarrow> \<not> isFinite (js_add a b)"
  by (cases a; cases b; simp)+

lemma js_sub_not_finite:
  "\<not> isFinite a \<Longrightarrow> \<not> isFinite (js_sub a b)" "\<not> isFinite b \<Longrightarrow> \<not> isFinite (js_sub a b)"
  by (cases a; cases b; simp add: js_sub_def)+

section \<open>Properties of the orchestrator\<close>

lemma decimal_nonempty: "decimal n \<noteq> []"
  by (subst decimal.simps) simp

lemma toUpperCase_names:
  "toUpperCase ''umap'' = ''UMAP''" "toUpperCase ''tsne'' = ''TSNE''"
  "toUpperCase ''pca'' = ''PCA''"
  by code_simp+

lemma incrementalPCA_returns:
  assumes "embeddings \<noteq> []" "option_or options pca_powerIterations (Num 20) \<noteq> PInf"
  shows "\<exists>pts. incrementalPCA embeddings documents options = Inr pts"
proof -
  obtain k where "loop_count (option_or options pca_powerIterations (Num 20)) = Some k"
    using assms(2) by (cases "option_or options pca_powerIterations (Num 20)") auto
  then show ?thesis using assms(1)
    by (simp add: incrementalPCA_def Let_def split: prod.splits)
qed

text \<open>
  C3.  The empty dataset gives \<open>{points: [], algorithm: "No data", timeMs: 0}\<close> and a
  dataset of one vector gives one point at the origin under the label
  \<open>"Single point"\<close> with \<open>timeMs\<close> 0, whatever the options, the clock and the entropy
  source are: no projector takes part in either result.
\<close>

theorem projectTo2D_trivial_datasets:
  "projectTo2D mathRandom startTime endTime [] documents options =
     Inr \<lparr>points = [], algorithm = ''No data'', timeMs = Num 0, warning = None\<rparr>
   \<and> projectTo2D mathRandom startTime endTime [v] documents options =
     Inr \<lparr>points = [\<lparr>pt_x = Num 0, pt_y = Num 0, pt_title = title_of documents 0,
                       pt_text = text_of documents 0, pt_index = 0\<rparr>],
           algorithm = ''Single point'', timeMs = Num 0, warning = None\<rparr>"
  by (simp add: projectTo2D_def)

text \<open>
  C4.  On a dataset of at least two vectors the orchestrator runs the requested
  projector when the request is explicit; on \<open>auto\<close> it runs PCA when \<open>n > 8000\<close> and
  UMAP otherwise.  The result carries that projector's points and its name.
\<close>

theorem projectTo2D_selects:
  assumes "2 \<le> length embeddings"
  shows "ran (projectTo2D mathRandom startTime endTime embeddings documents options)
     (case opt_algorithm options of
        Umap \<Rightarrow> uMAP embeddings documents (params_of options umap)
      | Tsne \<Rightarrow> tSNE mathRandom embeddings documents (params_of options tsne)
      | Pca \<Rightarrow> incrementalPCA embeddings documents (params_of options pca)
      | Auto \<Rightarrow> (if length embeddings > 8000
                 then incrementalPCA embeddings documents (params_of options pca)
                 else uMAP embeddings documents (params_of options umap)))
     (case opt_algorithm options of
        Umap \<Rightarrow> ''UMAP'' | Tsne \<Rightarrow> ''TSNE'' | Pca \<Rightarrow> ''PCA''
      | Auto \<Rightarrow> (if length embeddings > 8000 then ''PCA'' else ''UMAP''))"
  using assms
  by (cases "opt_algorithm options")
     (auto simp: projectTo2D_def ran_def Let_def toUpperCase_names split: sum.splits)

theorem projectTo2D_selects_witness:
  "2 \<le> length (replicate 8001 [Num 0])
   \<and> ran (projectTo2D (\<lambda>k. 0) (Num 0) (Num 1) (replicate 8001 [Num 0]) []
             \<lparr>opt_algorithm = Auto, opt_params = None\<rparr>)
          (incrementalPCA (replicate 8001 [Num 0]) [] None) ''PCA''
   \<and> ran (projectTo2D (\<lambda>k. 0) (Num 0) (Num 1) (replicate 8000 [Num 0]) []
             \<lparr>opt_algorithm = Auto, opt_params = None\<rparr>)
          (uMAP (replicate 8000 [Num 0]) [] None) ''UMAP''"
  using projectTo2D_selects [of "replicate 8001 [Num 0]" "\<lambda>k. 0" "Num 0" "Num 1" "[]"
                               "\<lparr>opt_algorithm = Auto, opt_params = None\<rparr>"]
        projectTo2D_selects [of "replicate 8000 [Num 0]" "\<lambda>k. 0" "Num 0" "Num 1" "[]"
                               "\<lparr>opt_algorithm = Auto, opt_params = None\<rparr>"]
  by (simp add: params_of_def)

section \<open>Trivial datasets given to a projector\<close>

text \<open>
  C2, as the code has it.  \<open>tSNE\<close> and \<open>uMAP\<close> return the empty list on the empty
  dataset, and on a dataset of one vector exactly one point with both coordinates \<open>0\<close>,
  index \<open>0\<close>, and the title and text of the first document (\<open>"Document 1"\<close> and
  \<open>""\<close> when they are missing).  A projector returns bare points: the label
  \<open>"Single point"\<close> is the \<open>algorithm\<close> field of the orchestrator's result only.
\<close>

theorem projectors_trivial_datasets:
  "tSNE mathRandom [] documents options = Inr []
   \<and> uMAP [] documents options' = Inr []
   \<and> tSNE mathRandom [v] documents options =
       Inr [\<lparr>pt_x = Num 0, pt_y = Num 0, pt_title = title_of documents 0,
              pt_text = text_of documents 0, pt_index = 0\<rparr>]
   \<and> uMAP [v] documents options' =
       Inr [\<lparr>pt_x = Num 0, pt_y = Num 0, pt_title = title_of documents 0,
              pt_text = text_of documents 0, pt_index = 0\<rparr>]"
  by (simp add: tSNE_def uMAP_def make_point_def)

lemma upt3': "[0..<Suc (Suc (Suc 0))] = [0, Suc 0, Suc (Suc 0)]" by simp

lemma power_round_degenerate:
  "power_round (Suc (Suc (Suc 0))) [[Num 0, Num 0, Num 0]] pcs = ([NaN, NaN, NaN], [NaN, NaN, NaN])"
proof -
  let ?d = "Suc (Suc (Suc 0))"
  have z: "js_mul (Num 0) v = Num 0 \<or> js_mul (Num 0) v = NaN" for v by (cases v) auto
  have d: "dot ?d [Num 0, Num 0, Num 0] w = Num 0 \<or> dot ?d [Num 0, Num 0, Num 0] w = NaN" for w
    using z[of "w ! 0"] z[of "w ! Suc 0"] z[of "w ! Suc (Suc 0)"]
    by (auto simp: dot_def)
  have c: "cov_times ?d [[Num 0, Num 0, Num 0]] w = [Num 0, Num 0, Num 0]
         \<or> cov_times ?d [[Num 0, Num 0, Num 0]] w = [NaN, NaN, NaN]" for w
    using d[of w] by (auto simp: cov_times_def Let_def)
  have n0: "normalize ?d [Num 0, Num 0, Num 0] = [NaN, NaN, NaN]"
    by (simp add: normalize_def dot_def Let_def)
  have n1: "normalize ?d [NaN, NaN, NaN] = [NaN, NaN, NaN]"
    by (simp add: normalize_def dot_def Let_def)
  have n: "normalize ?d (cov_times ?d [[Num 0, Num 0, Num 0]] w) = [NaN, NaN, NaN]" for w
    using c[of w] n0 n1 by auto
  have o: "normalize ?d (map (\<lambda>j. js_sub (u ! j) (js_mul t ([NaN, NaN, NaN] ! j))) [0..<?d]) = [NaN, NaN, NaN]" for u t
    using n1 by simp
  show ?thesis
    unfolding power_round_def Let_def fst_conv snd_conv n o ..
qed

lemma rounds_degenerate:
  "foldl (\<lambda>pcs (iter::nat). power_round (Suc (Suc (Suc 0))) [[Num 0, Num 0, Num 0]] pcs) pcs [0..<Suc k]
     = ([NaN, NaN, NaN], [NaN, NaN, NaN])"
  by (induction k) (simp_all add: power_round_degenerate)

lemma incrementalPCA_single:
  "incrementalPCA [[Num 1, Num 2, Num 3]] [\<lparr>doc_title = ''A'', doc_text = ''a''\<rparr>] None =
       Inr [\<lparr>pt_x = NaN, pt_y = NaN, pt_title = ''A'', pt_text = ''a'', pt_index = 0\<rparr>]"
proof -
  have c: "map (\<lambda>vec. map (\<lambda>j. js_sub (js_nth vec j)
               (map (\<lambda>j. js_div (foldl (\<lambda>mean vec. map (\<lambda>j. js_add (mean ! j) (js_nth vec j)) [0..<Suc (Suc (Suc 0))])
                         (replicate (Suc (Suc (Suc 0))) (Num 0)) [[Num 1, Num 2, Num 3]] ! j) (Num (real (Suc 0)))) [0..<Suc (Suc (Suc 0))] ! j))
               [0..<Suc (Suc (Suc 0))])
              [[Num 1, Num 2, Num 3]] = [[Num 0, Num 0, Num 0]]"
    by (simp add: js_nth_def)
  have r: "loop_count (Num 20) = Some (Suc 19)" by simp
  have dn: "dot (Suc (Suc (Suc 0))) [Num 0, Num 0, Num 0] [NaN, NaN, NaN] = NaN"
    by (simp add: dot_def)
  have l: "length [[Num 1, Num 2, Num (3::real)]] = Suc 0" "length [Num 1, Num 2, Num (3::real)] = Suc (Suc (Suc 0))"
    by simp_all
  show ?thesis
    unfolding incrementalPCA_def Let_def l nth_Cons_0 option_or_def option.case r c
      rounds_degenerate
    by (simp add: dn make_point_def title_of_def text_of_def)
qed

text \<open>
  The claim as stated fails: the point \<open>tSNE\<close> returns for the one vector
  \<open>[1, 2, 3]\<close> of the document titled \<open>"A"\<close> carries that title and no
  \<open>"Single point"\<close> label; \<open>incrementalPCA\<close>, which has no guard for trivial
  datasets, runs its algorithm on that vector (the centred data are zero, the first
  normalisation is \<open>0 * (1 / 0)\<close>) and returns a point at (NaN, NaN), and it throws on
  the empty dataset.
\<close>

theorem projectors_trivial_datasets_counterexample:
  "tSNE (\<lambda>k. 0) [[Num 1, Num 2, Num 3]] [\<lparr>doc_title = ''A'', doc_text = ''a''\<rparr>] None =
       Inr [\<lparr>pt_x = Num 0, pt_y = Num 0, pt_title = ''A'', pt_text = ''a'', pt_index = 0\<rparr>]
   \<and> incrementalPCA [[Num 1, Num 2, Num 3]] [\<lparr>doc_title = ''A'', doc_text = ''a''\<rparr>] None =
       Inr [\<lparr>pt_x = NaN, pt_y = NaN, pt_title = ''A'', pt_text = ''a'', pt_index = 0\<rparr>]
   \<and> incrementalPCA [] [] None = Inl TypeError"
  by (simp add: incrementalPCA_single)
     (simp add: tSNE_def make_point_def title_of_def text_of_def incrementalPCA_def)

section \<open>UMAP on fifty to ninety-nine points\<close>

lemma default_nNeighbors_NaN:
  assumes "50 \<le> n" "n < 100"
  shows "default_nNeighbors n = NaN"
  using assms by (simp add: default_nNeighbors_def js_sub_def)

lemma knn_NaN: "knn dists NaN i = []"
  by (simp add: knn_def Let_def)

lemma fuzzy_graph_no_neighbours:
  assumes "\<forall>i<length knns. knns ! i = []"
  shows "fuzzy_graph knns targetSum = []"
proof -
  have "foldl (\<lambda>g i. foldl (add_membership (umap_sigma (map snd (knns ! i)) targetSum) i)
                         g (knns ! i)) g is = g"
    if "\<forall>i\<in>set is. i < length knns" for g "is"
    using that assms by (induction "is" arbitrary: g) auto
  then show ?thesis
    by (simp add: fuzzy_graph_def)
qed

lemma epoch_step_no_edges:
  "epoch_step negRounds learningRate nEpochs [] (Y, rng, []) epoch = (Y, rng, [])"
  by (simp add: epoch_step_def seededShuffle_def)

text \<open>
  C10.  With \<open>50 \<le> n < 100\<close> and no \<open>nNeighbors\<close> option the default neighbour
  count \<open>floor(10 + sqrt(n - 100) / 3)\<close> is NaN.  Then every point's list of nearest
  neighbours is empty, the graph has no edge, and \<open>uMAP\<close> returns the initial layout
  drawn from the seeded stream, unless its epoch bound is \<open>Infinity\<close> and it never
  returns.
\<close>

theorem uMAP_neighbour_count_NaN:
  assumes "50 \<le> length embeddings" and "length embeddings < 100"
    and "options = None \<or> (\<exists>opts. options = Some opts \<and> umap_nNeighbors opts = None)"
  shows "default_nNeighbors (length embeddings) = NaN
    \<and> (\<forall>i<length embeddings.
          knn (distances embeddings)
              (option_or options umap_nNeighbors (default_nNeighbors (length embeddings))) i = [])
    \<and> umap_edges embeddings options = []
    \<and> uMAP embeddings documents options =
        (case loop_count (option_or options umap_nEpochs (Num 500)) of
           None \<Rightarrow> Inl Diverges
         | Some epochs \<Rightarrow>
             Inr (map (\<lambda>i. make_point documents i
                              (fst (init_layout (length embeddings) (generateSeed embeddings)) ! i))
                      [0..<length embeddings]))"
proof -
  let ?n = "length embeddings"
  have d: "default_nNeighbors ?n = NaN"
    using assms(1,2) by (rule default_nNeighbors_NaN)
  have k: "option_or options umap_nNeighbors (default_nNeighbors ?n) = NaN"
    using assms(3) d by (auto simp: option_or_def)
  have e: "umap_edges embeddings options = []"
    by (simp add: umap_edges_def Let_def k knn_NaN fuzzy_graph_no_neighbours edges_of_def)
  have f: "foldl (epoch_step 0 lr ne []) (Y, rng, []) es = (Y, rng, [])" for lr ne Y rng es
    by (induction es) (simp_all add: epoch_step_no_edges)
  have u: "uMAP embeddings documents options =
        (case loop_count (option_or options umap_nEpochs (Num 500)) of
           None \<Rightarrow> Inl Diverges
         | Some epochs \<Rightarrow>
             Inr (map (\<lambda>i. make_point documents i
                              (fst (init_layout ?n (generateSeed embeddings)) ! i))
                      [0..<?n]))"
  proof -
    have "?n \<noteq> 0" "?n \<noteq> 1" "\<not> ?n < 50" "?n < 1000" using assms(1,2) by auto
    then show ?thesis
      by (simp add: uMAP_def Let_def e f split: prod.splits option.splits)
  qed
  show ?thesis using d k e u by (simp add: knn_NaN)
qed

theorem uMAP_neighbour_count_NaN_witness:
  "50 \<le> length (replicate 50 [Num 0]) \<and> length (replicate 50 [Num 0]) < 100
   \<and> default_nNeighbors 50 = NaN
   \<and> knn (distances (replicate 50 [Num 0])) (option_or None umap_nNeighbors NaN) 49 = []
   \<and> umap_edges (replicate 50 [Num 0]) None = []
   \<and> uMAP (replicate 50 [Num 0]) [] None =
        Inr (map (\<lambda>i. make_point [] i
                         (fst (init_layout 50 (generateSeed (replicate 50 [Num 0]))) ! i))
                 [0..<50])"
proof -
  have w: "default_nNeighbors 50 = NaN
    \<and> (\<forall>i<50. knn (distances (replicate 50 [Num 0]))
                    (option_or None umap_nNeighbors (default_nNeighbors 50)) i = [])
    \<and> umap_edges (replicate 50 [Num 0]) None = []
    \<and> uMAP (replicate 50 [Num 0]) [] None =
        Inr (map (\<lambda>i. make_point [] i
                         (fst (init_layout 50 (generateSeed (replicate 50 [Num 0]))) ! i))
                 [0..<50])"
    using uMAP_neighbour_count_NaN [of "replicate 50 [Num 0]" None "[]"]
    by (simp add: option_or_def knn_NaN)
  have "knn (distances (replicate 50 [Num 0])) (option_or None umap_nNeighbors NaN) 49 = []"
    using w by (simp add: option_or_def knn_NaN)
  moreover have "50 \<le> length (replicate 50 [Num 0])" "length (replicate 50 [Num 0]) < 100"
    by simp_all
  ultimately show ?thesis using w by blast
qed

section \<open>Length, order and indices of the result\<close>

lemma loop_count_bounded:
  assumes "bounded_by options field" "dflt \<noteq> PInf"
  shows "\<exists>k. loop_count (option_or options field dflt) = Some k"
proof -
  have "option_or options field dflt \<noteq> PInf"
    using assms by (auto simp: bounded_by_def option_or_def split: option.splits)
  then show ?thesis by (cases "option_or options field dflt") auto
qed

lemma in_input_order_make_point:
  "in_input_order documents n (map (\<lambda>i. make_point documents i (f i)) [0..<n])"
  by (simp add: in_input_order_def make_point_def comp_def)

lemma tSNE_shape:
  "\<exists>Y'. tSNE mathRandom embeddings documents options = Inl Diverges
      \<or> tSNE mathRandom embeddings documents options =
          Inr (map (\<lambda>i. make_point documents i (Y' i)) [0..<length embeddings])"
proof -
  consider "embeddings = []" | "length embeddings = 1" | "embeddings \<noteq> []" "length embeddings \<noteq> 1"
    by blast
  then show ?thesis
  proof cases
    case 1 then show ?thesis by (simp add: tSNE_def)
  next
    case 2 then show ?thesis by (auto simp: tSNE_def intro: exI [of _ "\<lambda>i. (Num 0, Num 0)"])
  next
    case 3 then show ?thesis
      by (auto simp: tSNE_def Let_def split: option.splits prod.splits)
  qed
qed

lemma uMAP_shape:
  "\<exists>Y'. uMAP embeddings documents options = Inl Diverges
      \<or> uMAP embeddings documents options =
          Inr (map (\<lambda>i. make_point documents i (Y' i)) [0..<length embeddings])"
proof -
  consider "embeddings = []" | "length embeddings = 1" | "embeddings \<noteq> []" "length embeddings \<noteq> 1"
    by blast
  then show ?thesis
  proof cases
    case 1 then show ?thesis by (simp add: uMAP_def)
  next
    case 2 then show ?thesis by (auto simp: uMAP_def intro: exI [of _ "\<lambda>i. (Num 0, Num 0)"])
  next
    case 3 then show ?thesis
      by (auto simp: uMAP_def Let_def split: option.splits prod.splits)
  qed
qed

lemma tSNE_in_input_order:
  assumes "tSNE mathRandom embeddings documents options = Inr pts"
  shows "in_input_order documents (length embeddings) pts"
  using tSNE_shape [of mathRandom embeddings documents options] assms
  by (auto simp: in_input_order_make_point)

lemma uMAP_in_input_order:
  assumes "uMAP embeddings documents options = Inr pts"
  shows "in_input_order documents (length embeddings) pts"
  using uMAP_shape [of embeddings documents options] assms
  by (auto simp: in_input_order_make_point)

lemma incrementalPCA_in_input_order:
  assumes "incrementalPCA embeddings documents options = Inr pts"
  shows "in_input_order documents (length embeddings) pts"
  using assms in_input_order_make_point
  by (auto simp: incrementalPCA_def Let_def split: option.splits prod.splits if_splits)

lemma tSNE_returns:
  assumes "bounded_by options tsne_iterations"
  shows "\<exists>pts. tSNE mathRandom embeddings documents options = Inr pts"
proof -
  have "(if length embeddings < 200 then Num 1500 else Num 1000) \<noteq> PInf" by simp
  from loop_count_bounded [OF assms this]
  obtain k where "loop_count (option_or options tsne_iterations
       (if length embeddings < 200 then Num 1500 else Num 1000)) = Some k"
    by blast
  then show ?thesis
    using tSNE_shape [of mathRandom embeddings documents options]
    by (auto simp: tSNE_def Let_def split: prod.splits if_splits)
qed

lemma uMAP_returns:
  assumes "bounded_by options umap_nEpochs" "bounded_by options umap_negativeSampleRate"
  shows "\<exists>pts. uMAP embeddings documents options = Inr pts"
proof -
  have "(if length embeddings < 1000 then Num 500 else Num 200) \<noteq> PInf" by simp
  from loop_count_bounded [OF assms(1) this]
  obtain k where k: "loop_count (option_or options umap_nEpochs
       (if length embeddings < 1000 then Num 500 else Num 200)) = Some k"
    by blast
  obtain m where m: "loop_count (option_or options umap_negativeSampleRate (Num 5)) = Some m"
    using loop_count_bounded [OF assms(2), of "Num 5"] by auto
  show ?thesis using k m uMAP_shape [of embeddings documents options]
    by (auto simp: uMAP_def Let_def split: prod.splits if_splits)
qed

lemma incrementalPCA_returns_bounded:
  assumes "embeddings \<noteq> []" "bounded_by options pca_powerIterations"
  shows "\<exists>pts. incrementalPCA embeddings documents options = Inr pts"
proof -
  obtain k where "loop_count (option_or options pca_powerIterations (Num 20)) = Some k"
    using loop_count_bounded [OF assms(2), of "Num 20"] by auto
  then show ?thesis using assms(1)
    by (simp add: incrementalPCA_def Let_def split: prod.splits)
qed


lemma in_input_order_iff:
  "in_input_order documents n pts =
     (length pts = n \<and>
      (\<forall>i<n. pt_index (pts ! i) = i \<and> pt_title (pts ! i) = title_of documents i
              \<and> pt_text (pts ! i) = text_of documents i))"
proof -
  have "in_input_order documents n pts =
          (length pts = n \<and> (\<forall>i<n. (pt_index (pts ! i), pt_title (pts ! i), pt_text (pts ! i))
                                     = (i, title_of documents i, text_of documents i)))"
    unfolding in_input_order_def list_eq_iff_nth_eq by auto
  then show ?thesis by simp
qed

lemma projectTo2D_in_input_order:
  assumes "projectTo2D mathRandom startTime endTime embeddings documents options = Inr r"
  shows "in_input_order documents (length embeddings) (points r)"
proof -
  consider "embeddings = []" | "length embeddings = 1"
    | "embeddings \<noteq> []" "length embeddings \<noteq> 1"
    by blast
  then show ?thesis
  proof cases
    case 1 then show ?thesis using assms by (auto simp: projectTo2D_def in_input_order_def)
  next
    case 2 then show ?thesis using assms by (auto simp: projectTo2D_def in_input_order_def)
  next
    case 3
    then show ?thesis using assms
      by (cases "opt_algorithm options")
         (auto simp: projectTo2D_def Let_def tSNE_in_input_order uMAP_in_input_order
                     incrementalPCA_in_input_order split: sum.splits if_splits)
  qed
qed

lemma projectTo2D_returns:
  assumes "bounded_by (params_of options tsne) tsne_iterations"
    and "bounded_by (params_of options umap) umap_nEpochs"
    and "bounded_by (params_of options umap) umap_negativeSampleRate"
    and "bounded_by (params_of options pca) pca_powerIterations"
  shows "\<exists>r. projectTo2D mathRandom startTime endTime embeddings documents options = Inr r"
proof -
  consider "embeddings = []" | "length embeddings = 1"
    | "embeddings \<noteq> []" "length embeddings \<noteq> 1"
    by blast
  then show ?thesis
  proof cases
    case 1 then show ?thesis by (simp add: projectTo2D_def)
  next
    case 2 then show ?thesis by (simp add: projectTo2D_def)
  next
    case 3
    obtain p1 p2 p3 where
      "tSNE mathRandom embeddings documents (params_of options tsne) = Inr p1"
      "uMAP embeddings documents (params_of options umap) = Inr p2"
      "incrementalPCA embeddings documents (params_of options pca) = Inr p3"
      using tSNE_returns [OF assms(1)] uMAP_returns [OF assms(2,3)]
        incrementalPCA_returns_bounded [OF 3(1) assms(4)] by blast
    with 3 show ?thesis
      by (cases "opt_algorithm options") (auto simp: projectTo2D_def Let_def)
  qed
qed

section \<open>The warning of the orchestrator\<close>

text \<open>
  C5.  On a dataset of at least two vectors the orchestrator returns a result whenever
  no loop bound among the options is \<open>Infinity\<close>, and every result it returns carries a
  warning exactly when the resolved algorithm is PCA with \<open>n \<le> 1000\<close>, UMAP with
  \<open>n > 8000\<close> or t-SNE with \<open>n > 1000\<close>; a warning is never the empty string.
\<close>

theorem projectTo2D_warning:
  assumes "2 \<le> length embeddings"
  shows "(bounded_by (params_of options tsne) tsne_iterations
          \<and> bounded_by (params_of options umap) umap_nEpochs
          \<and> bounded_by (params_of options umap) umap_negativeSampleRate
          \<and> bounded_by (params_of options pca) pca_powerIterations
          \<longrightarrow> (\<exists>r. projectTo2D mathRandom startTime endTime embeddings documents options
                     = Inr r))
       \<and> (\<forall>r. projectTo2D mathRandom startTime endTime embeddings documents options = Inr r
              \<longrightarrow> (warning r \<noteq> None) =
                    (let n = length embeddings;
                         resolved = (if opt_algorithm options = Auto
                                     then (if n > 8000 then Pca else Umap)
                                     else opt_algorithm options)
                     in resolved = Pca \<and> n \<le> 1000 \<or> resolved = Umap \<and> n > 8000
                        \<or> resolved = Tsne \<and> n > 1000)
                  \<and> warning r \<noteq> Some [])"
proof -
  have returns: "\<exists>r. projectTo2D mathRandom startTime endTime embeddings documents options = Inr r"
    if "bounded_by (params_of options tsne) tsne_iterations
          \<and> bounded_by (params_of options umap) umap_nEpochs
          \<and> bounded_by (params_of options umap) umap_negativeSampleRate
          \<and> bounded_by (params_of options pca) pca_powerIterations"
    using that projectTo2D_returns [of options mathRandom startTime endTime embeddings documents]
    by blast
  have warns: "(warning r \<noteq> None) =
                    (let n = length embeddings;
                         resolved = (if opt_algorithm options = Auto
                                     then (if n > 8000 then Pca else Umap)
                                     else opt_algorithm options)
                     in resolved = Pca \<and> n \<le> 1000 \<or> resolved = Umap \<and> n > 8000
                        \<or> resolved = Tsne \<and> n > 1000)
                  \<and> warning r \<noteq> Some []"
    if "projectTo2D mathRandom startTime endTime embeddings documents options = Inr r" for r
    using that assms
    by (cases "opt_algorithm options")
       (auto simp: projectTo2D_def Let_def decimal_nonempty split: sum.splits if_splits)
  show ?thesis
    using returns warns by (intro conjI impI allI) (assumption | blast)+
qed

text \<open>
  The two instances the specification names, \<open>algorithm = "pca"\<close> with 500 vectors
  (a non-empty warning is returned) and with 9000 vectors (a result without warning is
  returned), and the two other warnings: \<open>"tsne"\<close> with 1001 vectors and \<open>"umap"\<close>
  with 8001 vectors.
\<close>

theorem projectTo2D_warning_witness:
  "\<exists>r r' t u. 2 \<le> length (replicate 500 [Num 0])
     \<and> projectTo2D (\<lambda>k. 0) (Num 0) (Num 1) (replicate 500 [Num 0]) []
          \<lparr>opt_algorithm = Pca, opt_params = None\<rparr> = Inr r
     \<and> warning r \<noteq> None \<and> warning r \<noteq> Some []
     \<and> projectTo2D (\<lambda>k. 0) (Num 0) (Num 1) (replicate 9000 [Num 0]) []
          \<lparr>opt_algorithm = Pca, opt_params = None\<rparr> = Inr r'
     \<and> warning r' = None
     \<and> projectTo2D (\<lambda>k. 0) (Num 0) (Num 1) (replicate 1001 [Num 0]) []
          \<lparr>opt_algorithm = Tsne, opt_params = None\<rparr> = Inr t
     \<and> warning t \<noteq> None \<and> warning t \<noteq> Some []
     \<and> projectTo2D (\<lambda>k. 0) (Num 0) (Num 1) (replicate 8001 [Num 0]) []
          \<lparr>opt_algorithm = Umap, opt_params = None\<rparr> = Inr u
     \<and> warning u \<noteq> None \<and> warning u \<noteq> Some []"
proof -
  have b: "bounded_by (params_of \<lparr>opt_algorithm = a, opt_params = None\<rparr> tsne) tsne_iterations
          \<and> bounded_by (params_of \<lparr>opt_algorithm = a, opt_params = None\<rparr> umap) umap_nEpochs
          \<and> bounded_by (params_of \<lparr>opt_algorithm = a, opt_params = None\<rparr> umap)
                umap_negativeSampleRate
          \<and> bounded_by (params_of \<lparr>opt_algorithm = a, opt_params = None\<rparr> pca)
                pca_powerIterations" for a
    by (simp add: bounded_by_def params_of_def option_or_def)
  note p = projectTo2D_warning [where mathRandom = "\<lambda>k. 0" and startTime = "Num 0"
             and endTime = "Num 1" and documents = "[]"]
  note p1 = p [where embeddings = "replicate 500 [Num 0]"
                 and options = "\<lparr>opt_algorithm = Pca, opt_params = None\<rparr>"]
  note p2 = p [where embeddings = "replicate 9000 [Num 0]"
                 and options = "\<lparr>opt_algorithm = Pca, opt_params = None\<rparr>"]
  note p3 = p [where embeddings = "replicate 1001 [Num 0]"
                 and options = "\<lparr>opt_algorithm = Tsne, opt_params = None\<rparr>"]
  note p4 = p [where embeddings = "replicate 8001 [Num 0]"
                 and options = "\<lparr>opt_algorithm = Umap, opt_params = None\<rparr>"]
  obtain r where r: "projectTo2D (\<lambda>k. 0) (Num 0) (Num 1) (replicate 500 [Num 0]) []
          \<lparr>opt_algorithm = Pca, opt_params = None\<rparr> = Inr r"
    using p1 b [of Pca] by auto
  obtain r' where r': "projectTo2D (\<lambda>k. 0) (Num 0) (Num 1) (replicate 9000 [Num 0]) []
          \<lparr>opt_algorithm = Pca, opt_params = None\<rparr> = Inr r'"
    using p2 b [of Pca] by auto
  obtain t where t: "projectTo2D (\<lambda>k. 0) (Num 0) (Num 1) (replicate 1001 [Num 0]) []
          \<lparr>opt_algorithm = Tsne, opt_params = None\<rparr> = Inr t"
    using p3 b [of Tsne] by auto
  obtain u where u: "projectTo2D (\<lambda>k. 0) (Num 0) (Num 1) (replicate 8001 [Num 0]) []
          \<lparr>opt_algorithm = Umap, opt_params = None\<rparr> = Inr u"
    using p4 b [of Umap] by auto
  have "warning r \<noteq> None \<and> warning r \<noteq> Some []"
    using p1 r by simp
  moreover have "warning r' = None"
    using p2 r' by simp
  moreover have "warning t \<noteq> None \<and> warning t \<noteq> Some []"
    using p3 t by simp
  moreover have "warning u \<noteq> None \<and> warning u \<noteq> Some []"
    using p4 u by simp
  ultimately show ?thesis using r r' t u by auto
qed

section \<open>The weights of the UMAP graph\<close>

lemma Math_sqrt_nonneg: "nonneg (Math_sqrt x)"
  by (cases x) (auto simp: nonneg_def)

lemma distances_nonneg:
  assumes "i < length embeddings" "j < length embeddings"
  shows "nonneg (distances embeddings ! i ! j)"
proof (cases "i = j")
  case True
  then show ?thesis using assms by (simp add: distances_def Let_def nonneg_def)
next
  case False
  then show ?thesis using assms
    by (simp add: distances_def Let_def euclidean_def Math_sqrt_nonneg)
qed

lemma Math_exp_unit:
  assumes "nonneg d" "positive_finite sigma"
  shows "unit_or_NaN (Math_exp (js_div (js_neg d) sigma))"
proof -
  obtain s where s: "sigma = Num s" "0 < s"
    using assms(2) by (cases sigma) (auto simp: positive_finite_def)
  show ?thesis
  proof (cases d)
    case (Num r)
    then have r: "0 \<le> r" using assms(1) by (simp add: nonneg_def)
    then have "- r / s \<le> 0" using s by (simp add: divide_nonpos_pos)
    moreover from this have "exp (- r / s) \<le> 1" by simp
    ultimately show ?thesis using Num s by (simp add: unit_or_NaN_def)
  next
    case PInf then show ?thesis using s by (simp add: unit_or_NaN_def)
  next
    case NInf then show ?thesis using assms(1) by (simp add: nonneg_def)
  next
    case NaN then show ?thesis by (simp add: unit_or_NaN_def)
  qed
qed

lemma midpoint_positive:
  assumes "positive_finite lo" "positive_finite hi"
  shows "positive_finite (js_div (js_add lo hi) (Num 2))"
  using assms by (cases lo; cases hi) (simp_all add: positive_finite_def)

lemma search_umap_sigma_positive:
  assumes "positive_finite lo" "positive_finite hi"
  shows "positive_finite (fst (search_umap_sigma k ds t (lo, hi)))
       \<and> positive_finite (snd (search_umap_sigma k ds t (lo, hi)))"
  using assms
proof (induction k arbitrary: lo hi)
  case 0 then show ?case by simp
next
  case (Suc k)
  note m = midpoint_positive [OF Suc.prems]
  show ?case using Suc.IH [OF Suc.prems(1) m] Suc.IH [OF m Suc.prems(2)]
    by (simp add: Let_def)
qed

lemma umap_sigma_positive: "positive_finite (umap_sigma ds t)"
proof -
  have "positive_finite (Num (1 / 10 ^ 10))" "positive_finite (Num 1000)"
    by (simp_all add: positive_finite_def)
  from search_umap_sigma_positive [OF this, of 50 ds t] show ?thesis
    by (auto simp: umap_sigma_def midpoint_positive split: prod.splits)
qed

lemma graph_get_or_0_unit:
  assumes "\<forall>e\<in>set g. unit_or_NaN (snd e)"
  shows "\<exists>r. graph_get_or_0 g key = Num r \<and> 0 \<le> r \<and> r \<le> 1"
proof (cases "map_of g key")
  case None then show ?thesis by (simp add: graph_get_or_0_def)
next
  case (Some w)
  then have "(key, w) \<in> set g" by (rule map_of_SomeD)
  then have "unit_or_NaN w" using assms by force
  then show ?thesis using Some
    by (cases w) (auto simp: graph_get_or_0_def unit_or_NaN_def)
qed

lemma set_graph_set: "set (graph_set g key w) \<subseteq> insert (key, w) (set g)"
  by (induction g key w rule: graph_set.induct) auto

lemma prob_or_unit:
  assumes "0 \<le> a" "a \<le> 1" "0 \<le> b" "b \<le> (1::real)"
  shows "0 \<le> a + b - a * b" "a + b - a * b \<le> 1"
proof -
  have "a + b - a * b = a + b * (1 - a)" by (simp add: algebra_simps)
  moreover have "0 \<le> b * (1 - a)" using assms by simp
  ultimately show "0 \<le> a + b - a * b" using assms by linarith
  have "1 - (a + b - a * b) = (1 - a) * (1 - b)" by (simp add: algebra_simps)
  moreover have "0 \<le> (1 - a) * (1 - b)" using assms by simp
  ultimately show "a + b - a * b \<le> 1" by linarith
qed

lemma add_membership_unit:
  assumes "\<forall>e\<in>set g. unit_or_NaN (snd e)" "positive_finite sigma" "nonneg (snd nb)"
  shows "\<forall>e\<in>set (add_membership sigma i g nb). unit_or_NaN (snd e)"
proof -
  let ?p = "Math_exp (js_div (js_neg (snd nb)) sigma)"
  let ?key = "edge_key i (fst nb)"
  obtain r where r: "graph_get_or_0 g ?key = Num r" "0 \<le> r" "r \<le> 1"
    using graph_get_or_0_unit [OF assms(1)] by blast
  have p: "unit_or_NaN ?p" using assms(2,3) by (simp add: Math_exp_unit)
  have "unit_or_NaN (js_sub (js_add (Num r) ?p) (js_mul (Num r) ?p))"
  proof (cases ?p)
    case (Num q)
    then have "0 \<le> q" "q \<le> 1" using p by (simp_all add: unit_or_NaN_def)
    then show ?thesis using Num r prob_or_unit [of r q] by (simp add: unit_or_NaN_def)
  qed (use p in \<open>simp_all add: unit_or_NaN_def\<close>)
  then have "\<forall>e\<in>insert (?key, js_sub (js_add (Num r) ?p) (js_mul (Num r) ?p)) (set g).
                unit_or_NaN (snd e)"
    using assms(1) by simp
  then have "\<forall>e\<in>set (graph_set g ?key (js_sub (js_add (Num r) ?p) (js_mul (Num r) ?p))).
                unit_or_NaN (snd e)"
    using set_graph_set [of g ?key "js_sub (js_add (Num r) ?p) (js_mul (Num r) ?p)"] by blast
  then show ?thesis
    using r by (simp add: add_membership_def Let_def)
qed

lemma foldl_add_membership_unit:
  assumes "\<forall>e\<in>set g. unit_or_NaN (snd e)" "positive_finite sigma"
    and "\<forall>nb\<in>set nbs. nonneg (snd nb)"
  shows "\<forall>e\<in>set (foldl (add_membership sigma i) g nbs). unit_or_NaN (snd e)"
  using assms
proof (induction nbs arbitrary: g)
  case Nil then show ?case by simp
next
  case (Cons nb nbs)
  have "\<forall>e\<in>set (add_membership sigma i g nb). unit_or_NaN (snd e)"
    using Cons.prems by (intro add_membership_unit) simp_all
  then show ?case using Cons.IH Cons.prems by simp
qed

lemma fuzzy_graph_unit:
  assumes "\<forall>nbs\<in>set knns. \<forall>nb\<in>set nbs. nonneg (snd nb)"
  shows "\<forall>e\<in>set (fuzzy_graph knns targetSum). unit_or_NaN (snd e)"
proof -
  have "\<forall>e\<in>set (foldl (\<lambda>g i. foldl (add_membership (umap_sigma (map snd (knns ! i)) targetSum) i)
                         g (knns ! i)) g is). unit_or_NaN (snd e)"
    if "\<forall>i\<in>set is. i < length knns" "\<forall>e\<in>set g. unit_or_NaN (snd e)" for g "is"
    using that
  proof (induction "is" arbitrary: g)
    case Nil then show ?case by simp
  next
    case (Cons i "is")
    have "knns ! i \<in> set knns" using Cons.prems(1) by simp
    then have "\<forall>nb\<in>set (knns ! i). nonneg (snd nb)"
      using assms by blast
    then have "\<forall>e\<in>set (foldl (add_membership (umap_sigma (map snd (knns ! i)) targetSum) i)
                         g (knns ! i)). unit_or_NaN (snd e)"
      using Cons.prems(2) umap_sigma_positive by (intro foldl_add_membership_unit)
    then show ?case using Cons.IH Cons.prems(1) by simp
  qed
  from this [of "[0..<length knns]" "[]"] show ?thesis by (simp add: fuzzy_graph_def)
qed

lemma set_insert_neighbor: "set (insert_neighbor a bs) = insert a (set bs)"
  by (induction bs) auto

lemma set_sort_neighbors: "set (sort_neighbors xs) = set xs"
  by (induction xs) (simp_all add: sort_neighbors_def set_insert_neighbor)

lemma set_slice0: "set (slice0 xs k) \<subseteq> set xs"
  by (cases k) (auto simp: Let_def dest: in_set_takeD)

lemma knn_nonneg:
  assumes "i < length embeddings"
  shows "\<forall>nb\<in>set (knn (distances embeddings) nNeighbors i). nonneg (snd nb)"
proof
  fix nb assume "nb \<in> set (knn (distances embeddings) nNeighbors i)"
  then have "nb \<in> set (map (\<lambda>j. (j, distances embeddings ! i ! j))
                          (others (length (distances embeddings)) i))"
    using set_slice0 set_sort_neighbors by (fastforce simp: knn_def Let_def)
  then obtain j where "j < length embeddings" "nb = (j, distances embeddings ! i ! j)"
    by (auto simp: others_def distances_def Let_def)
  then show "nonneg (snd nb)" using assms distances_nonneg by simp
qed

text \<open>
  C7.  Every edge that \<open>uMAP\<close> keeps has a finite weight \<open>w\<close> with \<open>0 < w \<le> 1\<close>:
  a membership strength \<open>exp(-dist / sigma)\<close> lies in \<open>[0, 1]\<close> or is NaN, the
  probabilistic sum of two such values does too, and the filter \<open>weight > 0\<close> drops
  \<open>0\<close> and NaN.
\<close>

theorem uMAP_edge_weights:
  assumes "2 \<le> length embeddings"
  shows "\<forall>(source, target, weight) \<in> set (umap_edges embeddings options).
            \<exists>w. weight = Num w \<and> 0 < w \<and> w \<le> 1"
proof -
  let ?n = "length embeddings"
  let ?k = "option_or options umap_nNeighbors (default_nNeighbors ?n)"
  let ?g = "fuzzy_graph (map (knn (distances embeddings) ?k) [0..<?n]) (Math_log2 ?k)"
  have "\<forall>e\<in>set ?g. unit_or_NaN (snd e)"
    by (rule fuzzy_graph_unit) (auto simp: knn_nonneg)
  moreover have "\<exists>w. weight = Num w \<and> 0 < w \<and> w \<le> 1"
    if "unit_or_NaN weight" "js_gt weight (Num 0)" for weight
    using that by (cases weight) (auto simp: unit_or_NaN_def)
  ultimately show ?thesis
    by (fastforce simp: umap_edges_def Let_def edges_of_def)
qed


text \<open>Two coincident points: one edge, of weight \<open>1\<close>.\<close>

lemma floor_sqrt_2: "\<lfloor>sqrt 2\<rfloor> = 1"
proof -
  have "1 \<le> sqrt 2" by simp
  moreover have "sqrt 2 < 2" by (simp add: real_sqrt_less_iff [of 2 4, simplified] real_less_lsqrt)
  ultimately show ?thesis by (simp add: floor_eq_iff)
qed

lemma upt2: "[0..<2] = [0, 1]" by (simp add: upt_rec)

lemma distances_two_zero: "distances [[Num 0], [Num 0]] = [[Num 0, Num 0], [Num 0, Num 0]]"
  by (simp add: distances_def Let_def upt2 euclidean_def js_nth_def)

lemma default_nNeighbors_2: "default_nNeighbors (Suc (Suc 0)) = Num 3"
  by (simp add: default_nNeighbors_def floor_sqrt_2 Math_min_def Math_max_def)

lemma knn_two_zero:
  "knn [[Num 0, Num 0], [Num 0, Num 0]] (Num 3) 0 = [(Suc 0, Num 0)]"
  "knn [[Num 0, Num 0], [Num 0, Num 0]] (Num 3) (Suc 0) = [(0, Num 0)]"
  by (simp_all add: knn_def Let_def others_def upt2 sort_neighbors_def Math_min_def)

lemma membership_at_zero:
  "Math_exp (js_div (Num 0) (umap_sigma ds t)) = Num 1"
proof -
  obtain s where "umap_sigma ds t = Num s" "0 < s"
    using umap_sigma_positive [of ds t] by (cases "umap_sigma ds t") (auto simp: positive_finite_def)
  then show ?thesis by simp
qed

lemma keys_01: "edge_key 0 (Suc 0) = ''0-1''" "edge_key (Suc 0) 0 = ''0-1''"
  by (simp_all add: edge_key_def) (code_simp+)

lemma umap_edges_two_zero:
  assumes "option_or options umap_nNeighbors (Num 3) = Num 3"
  shows "umap_edges [[Num 0], [Num 0]] options = [(0, 1, Num 1)]"
proof -
  have g: "fuzzy_graph [[(Suc 0, Num 0)], [(0, Num 0)]] t = [(''0-1'', Num 1)]" for t
    by (simp add: fuzzy_graph_def upt2 add_membership_def Let_def membership_at_zero keys_01
          graph_get_or_0_def)
  have e: "edges_of [(''0-1'', Num 1)] = [(0, 1, Num 1)]"
    by (simp add: edges_of_def Number_of_def)
  show ?thesis
    by (simp add: umap_edges_def Let_def assms default_nNeighbors_2 distances_two_zero
          upt2 knn_two_zero g e)
qed

theorem uMAP_edge_weights_witness:
  "2 \<le> length [[Num 0], [Num 0]]
   \<and> umap_edges [[Num 0], [Num 0]] None = [(0, 1, Num 1)]
   \<and> (\<exists>w. Num 1 = Num w \<and> 0 < w \<and> w \<le> 1)"
  using uMAP_edge_weights [of "[[Num 0], [Num 0]]" None] umap_edges_two_zero [of None]
  by (simp add: option_or_def)

section \<open>Non-finite coordinates during optimisation\<close>

lemma small_finite: "isFinite (small r)"
  by (simp add: small_def)

lemma init_layout_finite:
  "length (fst (init_layout n rng)) = n \<and> list_all finite_point (fst (init_layout n rng))"
  by (induction n arbitrary: rng)
     (simp_all add: case_prod_beta Let_def finite_point_def small_finite)

lemma clamp_finite: "isFinite v \<Longrightarrow> isFinite (Math_max (Num lo) (Math_min (Num hi) v))"
  by (cases v) (simp_all add: Math_max_def Math_min_def)

lemma new_position_finite: "finite_point (fst (new_position mathRandom used y))"
  by (auto simp: new_position_def finite_point_def small_finite clamp_finite)

lemma new_position_reset:
  assumes "\<not> isFinite (fst y) \<or> \<not> isFinite (snd y)"
  shows "new_position mathRandom used y =
           ((small (mathRandom used), small (mathRandom (used + 1))), used + 2)"
  using assms by (auto simp: new_position_def)

lemma new_position_clamp:
  assumes "isFinite (fst y)" "isFinite (snd y)"
  shows "new_position mathRandom used y =
           ((Math_max (Num (- 1000)) (Math_min (Num 1000) (fst y)),
             Math_max (Num (- 1000)) (Math_min (Num 1000) (snd y))), used)"
proof -
  have "\<not> isNaN (fst y)" "\<not> isNaN (snd y)"
    using assms by (cases "fst y"; cases "snd y"; simp)+
  then show ?thesis using assms by (simp add: new_position_def)
qed

lemma update_point_layout:
  "fst (update_point mathRandom m eta gradient (Y, gains, YStep, used) i)
     = Y[i := fst (new_position mathRandom used
                     (js_add (fst (Y ! i))
                        (new_step m eta (new_gain (fst (gains ! i)) (fst (gradient i)) (fst (YStep ! i)))
                           (fst (gradient i)) (fst (YStep ! i))),
                      js_add (snd (Y ! i))
                        (new_step m eta (new_gain (snd (gains ! i)) (snd (gradient i)) (snd (YStep ! i)))
                           (snd (gradient i)) (snd (YStep ! i)))))]"
  by (simp add: update_point_def Let_def case_prod_beta)

lemma update_points_finite:
  assumes "length (fst st) = n" "k \<le> n"
  shows "length (fst (foldl (update_point mathRandom m eta gradient) st [0..<k])) = n
       \<and> (\<forall>i<k. finite_point (fst (foldl (update_point mathRandom m eta gradient) st [0..<k]) ! i))"
  using assms(2)
proof (induction k)
  case 0 then show ?case using assms(1) by simp
next
  case (Suc k)
  let ?st = "foldl (update_point mathRandom m eta gradient) st [0..<k]"
  obtain Y gains YStep used where st: "?st = (Y, gains, YStep, used)"
    by (cases ?st) auto
  have ih: "length Y = n" "\<forall>i<k. finite_point (Y ! i)"
    using Suc st by auto
  have "k < n" using Suc.prems by simp
  then show ?case
    using ih st update_point_layout [of mathRandom m eta gradient Y gains YStep used k]
      new_position_finite
    by (auto simp: nth_list_update less_Suc_eq)
qed

lemma foldl_add_Num:
  "foldl (\<lambda>acc y. js_add acc (Num (f y))) (Num a) ys = Num (a + sum_list (map f ys))"
  by (induction ys arbitrary: a) (simp_all add: add.assoc)

lemma center_finite:
  assumes "list_all finite_point Y" "Y \<noteq> []"
  shows "length (center Y) = length Y \<and> list_all finite_point (center Y)"
proof -
  obtain fx fy where f: "\<forall>y\<in>set Y. fst y = Num (fx y) \<and> snd y = Num (fy y)"
  proof
    show "\<forall>y\<in>set Y. fst y = Num ((\<lambda>y. case fst y of Num r \<Rightarrow> r | _ \<Rightarrow> 0) y)
                 \<and> snd y = Num ((\<lambda>y. case snd y of Num r \<Rightarrow> r | _ \<Rightarrow> 0) y)"
      using assms(1) by (auto simp: list_all_iff finite_point_def isFinite_iff)
  qed
  have sx: "foldl (\<lambda>acc y. js_add acc (fst y)) (Num 0) Y = Num (sum_list (map fx Y))"
  proof -
    have "foldl (\<lambda>acc y. js_add acc (fst y)) a Y = foldl (\<lambda>acc y. js_add acc (Num (fx y))) a Y" for a
      using f by (induction Y arbitrary: a) simp_all
    then show ?thesis by (simp add: foldl_add_Num)
  qed
  have sy: "foldl (\<lambda>acc y. js_add acc (snd y)) (Num 0) Y = Num (sum_list (map fy Y))"
  proof -
    have "foldl (\<lambda>acc y. js_add acc (snd y)) a Y = foldl (\<lambda>acc y. js_add acc (Num (fy y))) a Y" for a
      using f by (induction Y arbitrary: a) simp_all
    then show ?thesis by (simp add: foldl_add_Num)
  qed
  have n: "real (length Y) \<noteq> 0" using assms(2) by simp
  show ?thesis
    using f n by (auto simp: center_def Let_def sx sy list_all_iff finite_point_def)
qed


lemma iteration_finite:
  assumes "length (fst st) = n" "0 < n"
  shows "length (fst (iteration mathRandom P momentum eta ex st iter)) = n
       \<and> list_all finite_point (fst (iteration mathRandom P momentum eta ex st iter))"
proof -
  obtain Y gains YStep used where st: "st = (Y, gains, YStep, used)"
    by (cases st) auto
  define m where "m = (if iter < 20 then Num (1 / 2) else momentum)"
  define g where "g = gradient_of P Y (sum_Q Y)
                        (if iter < (if length Y < 200 then 350 else 250) then ex else Num 1)"
  let ?st' = "foldl (update_point mathRandom m eta g) st [0..<n]"
  have u: "length (fst ?st') = n" "\<forall>i<n. finite_point (fst ?st' ! i)"
    using update_points_finite [OF assms(1), of n mathRandom m eta g] by simp_all
  then have "list_all finite_point (fst ?st')" "fst ?st' \<noteq> []"
    using assms(2) by (auto simp: list_all_length)
  then have "length (center (fst ?st')) = n \<and> list_all finite_point (center (fst ?st'))"
    using center_finite [of "fst ?st'"] u(1) by simp
  moreover have "fst (iteration mathRandom P momentum eta ex st iter) = center (fst ?st')"
    using assms(1) by (simp add: iteration_def st Let_def case_prod_beta m_def g_def)
  ultimately show ?thesis by simp
qed

lemma iterations_finite:
  assumes "length (fst st) = n" "0 < n" "list_all finite_point (fst st)"
  shows "length (fst (foldl (iteration mathRandom P momentum eta ex) st its)) = n
       \<and> list_all finite_point (fst (foldl (iteration mathRandom P momentum eta ex) st its))"
  using assms
proof (induction its arbitrary: st)
  case Nil then show ?case by simp
next
  case (Cons it its)
  have "length (fst (iteration mathRandom P momentum eta ex st it)) = n"
    "list_all finite_point (fst (iteration mathRandom P momentum eta ex st it))"
    using iteration_finite [OF Cons.prems(1,2), of mathRandom P momentum eta ex it] by simp_all
  from Cons.IH [OF this(1) Cons.prems(2) this(2)] show ?case by simp
qed

lemma tSNE_finite:
  assumes "tSNE mathRandom embeddings documents options = Inr pts"
  shows "\<forall>p\<in>set pts. isFinite (pt_x p) \<and> isFinite (pt_y p)"
proof -
  let ?n = "length embeddings"
  consider "embeddings = []" | "?n = 1" | "embeddings \<noteq> []" "?n \<noteq> 1" by blast
  then show ?thesis
  proof cases
    case 1 then show ?thesis using assms by (simp add: tSNE_def)
  next
    case 2 then show ?thesis using assms by (auto simp: tSNE_def make_point_def)
  next
    case 3
    let ?Y = "fst (init_layout ?n (generateSeed embeddings))"
    let ?st = "(?Y, replicate ?n (Num 1, Num 1), replicate ?n (Num 0, Num 0), 0::nat)"
    from 3 assms obtain rounds where
      pts: "pts = map (\<lambda>i. make_point documents i
                 (fst (foldl (iteration mathRandom (joint_P embeddings options)
                                (option_or options tsne_momentum (Num (8 / 10)))
                                (option_or options tsne_learningRate (Num 500))
                                (option_or options tsne_earlyExaggeration (Num 4)))
                             ?st [0..<rounds]) ! i)) [0..<?n]"
      by (auto simp: tSNE_def Let_def case_prod_beta split: option.splits)
    have "length (fst ?st) = ?n" "0 < ?n" "list_all finite_point (fst ?st)"
      using init_layout_finite [of ?n "generateSeed embeddings"] 3 by simp_all
    from iterations_finite [OF this]
    show ?thesis
      unfolding pts by (auto simp: make_point_def list_all_length finite_point_def)
  qed
qed


lemma small_reset_range:
  assumes "0 \<le> r" "r < 1"
  shows "reset_range (small r)"
  using assms by (simp add: small_def reset_range_def)

lemma new_position_cases:
  "new_position mathRandom used y =
     (if finite_point y then (clamped y, used)
      else ((small (mathRandom used), small (mathRandom (used + 1))), used + 2))"
  using new_position_reset [of y mathRandom used] new_position_clamp [of y mathRandom used]
  by (auto simp: finite_point_def clamped_def)

lemma update_points_account:
  fixes Y gains YStep used mathRandom m eta g
  defines "ns \<equiv> \<lambda>i. (new_step m eta (new_gain (fst (gains ! i)) (fst (g i)) (fst (YStep ! i)))
                            (fst (g i)) (fst (YStep ! i)),
                        new_step m eta (new_gain (snd (gains ! i)) (snd (g i)) (snd (YStep ! i)))
                            (snd (g i)) (snd (YStep ! i)))"
  defines "mv \<equiv> \<lambda>i. (js_add (fst (Y ! i)) (fst (ns i)), js_add (snd (Y ! i)) (snd (ns i)))"
  defines "rb \<equiv> \<lambda>i. length (filter (\<lambda>j. \<not> finite_point (mv j)) [0..<i])"
  assumes len: "length YStep = length Y" and k: "k \<le> length Y"
  shows "\<exists>Yk gk Sk.
           foldl (update_point mathRandom m eta g) (Y, gains, YStep, used) [0..<k]
             = (Yk, gk, Sk, used + 2 * rb k)
           \<and> length Yk = length Y \<and> length Sk = length Y
           \<and> (\<forall>i<length Y. Yk ! i =
                  (if i < k
                   then (if finite_point (mv i) then clamped (mv i)
                         else (small (mathRandom (used + 2 * rb i)),
                               small (mathRandom (used + 2 * rb i + 1))))
                   else Y ! i))
           \<and> (\<forall>i<length Y. Sk ! i = (if i < k then ns i else YStep ! i))
           \<and> (\<forall>i. k \<le> i \<longrightarrow> gk ! i = gains ! i)"
  using k
proof (induction k)
  case 0
  show ?case by (simp add: len rb_def)
next
  case (Suc k)
  then obtain Yk gk Sk where
    f: "foldl (update_point mathRandom m eta g) (Y, gains, YStep, used) [0..<k]
             = (Yk, gk, Sk, used + 2 * rb k)"
    and l: "length Yk = length Y" "length Sk = length Y"
    and y: "\<forall>i<length Y. Yk ! i =
                  (if i < k
                   then (if finite_point (mv i) then clamped (mv i)
                         else (small (mathRandom (used + 2 * rb i)),
                               small (mathRandom (used + 2 * rb i + 1))))
                   else Y ! i)"
    and s: "\<forall>i<length Y. Sk ! i = (if i < k then ns i else YStep ! i)"
    and gg: "\<forall>i. k \<le> i \<longrightarrow> gk ! i = gains ! i"
    by auto
  have kn: "k < length Y" using Suc.prems by simp
  have at: "Yk ! k = Y ! k" "Sk ! k = YStep ! k" "gk ! k = gains ! k"
    using y s gg kn by simp_all
  have rbS: "rb (Suc k) = (if finite_point (mv k) then rb k else Suc (rb k))"
    by (simp add: rb_def)
  let ?gk = "gk[k := (new_gain (fst (gains ! k)) (fst (g k)) (fst (YStep ! k)),
                       new_gain (snd (gains ! k)) (snd (g k)) (snd (YStep ! k)))]"
  have u': "update_point mathRandom m eta g (Yk, gk, Sk, used + 2 * rb k) k
         = (Yk[k := fst (new_position mathRandom (used + 2 * rb k) (mv k))], ?gk,
            Sk[k := ns k], snd (new_position mathRandom (used + 2 * rb k) (mv k)))"
    by (simp add: update_point_def Let_def case_prod_beta at mv_def ns_def)
  have step: "foldl (update_point mathRandom m eta g) (Y, gains, YStep, used) [0..<Suc k]
        = (Yk[k := fst (new_position mathRandom (used + 2 * rb k) (mv k))], ?gk,
            Sk[k := ns k], used + 2 * rb (Suc k))"
    by (simp add: f u' new_position_cases rbS)
  show ?case
    unfolding step
    apply (intro exI conjI)
         apply (rule refl)
        apply (simp add: l)
       apply (simp add: l)
      apply (simp add: l y nth_list_update new_position_cases less_Suc_eq)
     apply (simp add: l s nth_list_update less_Suc_eq)
    apply (simp add: gg)
    done
qed

lemma new_step_NaN_step: "new_step m eta gain grad NaN = NaN"
  by (simp add: new_step_def js_sub_def)

lemma js_add_NaN_not_finite: "\<not> isFinite (js_add a NaN)"
  by simp

lemma iteration_account:
  assumes rnd: "\<forall>k. 0 \<le> mathRandom k \<and> mathRandom k < 1"
    and len: "length YStep = length Y" and ne: "Y \<noteq> []"
    and it: "iteration mathRandom P momentum eta earlyExaggeration (Y, gains, YStep, used) iter
             = (Yc, gains', YStep', used')"
  shows "\<exists>Y'. Yc = center Y' \<and> length Y' = length Y
           \<and> (\<forall>i<length Y.
                 if finite_point (stepped Y YStep' i)
                 then Y' ! i = clamped (stepped Y YStep' i)
                 else Y' ! i = (small (mathRandom (used + 2 * resets_before Y YStep' i)),
                                small (mathRandom (used + 2 * resets_before Y YStep' i + 1)))
                      \<and> reset_range (fst (Y' ! i)) \<and> reset_range (snd (Y' ! i)))"
    and "used' = used + 2 * resets_before Y YStep' (length Y)"
    and "length YStep' = length YStep"
    and "\<forall>i<length Y. has_NaN (YStep ! i)
            \<longrightarrow> has_NaN (YStep' ! i) \<and> \<not> finite_point (stepped Y YStep' i)"
proof -
  define m where "m = (if iter < 20 then Num (1 / 2) else momentum)"
  define g where "g = gradient_of P Y (sum_Q Y)
                        (if iter < (if length Y < 200 then 350 else 250)
                         then earlyExaggeration else Num 1)"
  define ns where "ns = (\<lambda>i. (new_step m eta (new_gain (fst (gains ! i)) (fst (g i)) (fst (YStep ! i)))
                            (fst (g i)) (fst (YStep ! i)),
                        new_step m eta (new_gain (snd (gains ! i)) (snd (g i)) (snd (YStep ! i)))
                            (snd (g i)) (snd (YStep ! i))))"
  define mv where "mv = (\<lambda>i. (js_add (fst (Y ! i)) (fst (ns i)), js_add (snd (Y ! i)) (snd (ns i))))"
  define rb where "rb = (\<lambda>i. length (filter (\<lambda>j. \<not> finite_point (mv j)) [0..<i]))"
  obtain Yk gk Sk where
    f: "foldl (update_point mathRandom m eta g) (Y, gains, YStep, used) [0..<length Y]
             = (Yk, gk, Sk, used + 2 * rb (length Y))"
    and l: "length Yk = length Y" "length Sk = length Y"
    and y: "\<forall>i<length Y. Yk ! i =
                  (if i < length Y
                   then (if finite_point (mv i) then clamped (mv i)
                         else (small (mathRandom (used + 2 * rb i)),
                               small (mathRandom (used + 2 * rb i + 1))))
                   else Y ! i)"
    and s: "\<forall>i<length Y. Sk ! i = (if i < length Y then ns i else YStep ! i)"
    using update_points_account [OF len order_refl, of mathRandom m eta g gains used]
    unfolding ns_def mv_def rb_def by blast
  have "iteration mathRandom P momentum eta earlyExaggeration (Y, gains, YStep, used) iter
          = (center Yk, gk, Sk, used + 2 * rb (length Y))"
    by (simp add: iteration_def Let_def m_def [symmetric] g_def [symmetric] f)
  then have eq: "Yc = center Yk" "YStep' = Sk" "used' = used + 2 * rb (length Y)"
    using it by simp_all
  have st: "stepped Y YStep' i = mv i" if "i < length Y" for i
    using s that by (simp add: stepped_def eq mv_def)
  have rbe: "resets_before Y YStep' i = rb i" if "i \<le> length Y" for i
    unfolding resets_before_def rb_def
    by (rule arg_cong [where f = length], rule filter_cong) (use that st in auto)
  show "\<exists>Y'. Yc = center Y' \<and> length Y' = length Y
           \<and> (\<forall>i<length Y.
                 if finite_point (stepped Y YStep' i)
                 then Y' ! i = clamped (stepped Y YStep' i)
                 else Y' ! i = (small (mathRandom (used + 2 * resets_before Y YStep' i)),
                                small (mathRandom (used + 2 * resets_before Y YStep' i + 1)))
                      \<and> reset_range (fst (Y' ! i)) \<and> reset_range (snd (Y' ! i)))"
  proof (intro exI [of _ Yk] conjI allI impI)
    show "Yc = center Yk" by (rule eq)
    show "length Yk = length Y" by (rule l)
    fix i assume i: "i < length Y"
    show "if finite_point (stepped Y YStep' i)
          then Yk ! i = clamped (stepped Y YStep' i)
          else Yk ! i = (small (mathRandom (used + 2 * resets_before Y YStep' i)),
                         small (mathRandom (used + 2 * resets_before Y YStep' i + 1)))
               \<and> reset_range (fst (Yk ! i)) \<and> reset_range (snd (Yk ! i))"
      using y i rnd by (simp add: st rbe small_reset_range)
  qed
  show "used' = used + 2 * resets_before Y YStep' (length Y)"
    using rbe [of "length Y"] eq(3) by simp
  show "length YStep' = length YStep" by (simp add: eq l len)
  show "\<forall>i<length Y. has_NaN (YStep ! i)
            \<longrightarrow> has_NaN (YStep' ! i) \<and> \<not> finite_point (stepped Y YStep' i)"
  proof (intro allI impI)
    fix i assume i: "i < length Y" and n: "has_NaN (YStep ! i)"
    have si: "YStep' ! i = ns i" using s i eq(2) by simp
    have "isNaN v \<Longrightarrow> v = NaN" for v by (cases v) simp_all
    then consider "fst (YStep ! i) = NaN" | "snd (YStep ! i) = NaN"
      using n by (auto simp: has_NaN_def)
    then show "has_NaN (YStep' ! i) \<and> \<not> finite_point (stepped Y YStep' i)"
    proof cases
      case 1
      then have "fst (ns i) = NaN" by (simp add: ns_def new_step_NaN_step)
      then show ?thesis
        using si st [OF i] by (simp add: has_NaN_def mv_def finite_point_def)
    next
      case 2
      then have "snd (ns i) = NaN" by (simp add: ns_def new_step_NaN_step)
      then show ?thesis
        using si st [OF i] by (simp add: has_NaN_def mv_def finite_point_def)
    qed
  qed
qed

lemma iteration_example:
  "iteration (\<lambda>k. 0) [[Num 0, Num (1 / 2)], [Num (1 / 2), Num 0]] (Num (4 / 5)) (Num 500) (Num 4)
      ([(Num 0, Num 0), (Num 0, Num 0)], [(Num 1, Num 1), (Num 1, Num 1)],
       [(NaN, Num 0), (Num 0, Num 0)], 0) 0
   = ([(Num (- (1 / 400)), Num (- (1 / 400))), (Num (1 / 400), Num (1 / 400))],
      [(Num (6 / 5), Num (4 / 5)), (Num (4 / 5), Num (4 / 5))],
      [(NaN, Num 0), (Num 0, Num 0)], 2)"
  by (simp add: iteration_def Let_def upt2 update_point_def gradient_of_def others_def
        sum_Q_def student_q_def normal_Q_def new_gain_def new_step_def js_strict_neq_def
        Math_max_def Math_min_def new_position_def small_def center_def case_prod_beta
        numeral_2_eq_2)

text \<open>
  C8, as the code has it.  One iteration of \<open>tSNE\<close>, from any state whose steps are as
  many as its points, with \<open>Math.random\<close> in \<open>[0, 1)\<close>.  The layout it leaves is the
  centred layout \<open>Y'\<close> of the update loop, in which a point whose stepped position has a
  NaN or infinite coordinate has both coordinates replaced by
  \<open>(Math.random() - 0.5) * 0.01\<close>, from two draws that no other point uses, each in
  \<open>[-0.005, 0.005)\<close>, and every other point is clamped to \<open>[-1000, 1000]\<close>; two draws
  are consumed per reset.  The layout at the end of the iteration is finite, and layout
  and steps keep their lengths.  The step is not reset: a step with a NaN coordinate keeps
  one, and its point is reset again.  \<open>tSNE\<close> never throws, it returns whenever its
  iteration bound is not \<open>Infinity\<close>, and every coordinate it returns is finite.
\<close>

theorem tSNE_resets_non_finite:
  assumes "\<forall>k. 0 \<le> mathRandom k \<and> mathRandom k < 1"
    and "length YStep = length Y" and "Y \<noteq> []"
    and "iteration mathRandom P momentum eta earlyExaggeration (Y, gains, YStep, used) iter
         = (Yc, gains', YStep', used')"
  shows "(\<exists>Y'. Yc = center Y' \<and> length Y' = length Y
            \<and> (\<forall>i<length Y.
                  if finite_point (stepped Y YStep' i)
                  then Y' ! i = clamped (stepped Y YStep' i)
                  else Y' ! i = (small (mathRandom (used + 2 * resets_before Y YStep' i)),
                                 small (mathRandom (used + 2 * resets_before Y YStep' i + 1)))
                       \<and> reset_range (fst (Y' ! i)) \<and> reset_range (snd (Y' ! i))))
       \<and> used' = used + 2 * resets_before Y YStep' (length Y)
       \<and> length Yc = length Y \<and> length YStep' = length YStep
       \<and> list_all finite_point Yc
       \<and> (\<forall>i<length Y. has_NaN (YStep ! i)
              \<longrightarrow> has_NaN (YStep' ! i) \<and> \<not> finite_point (stepped Y YStep' i))
       \<and> tSNE mathRandom embeddings documents options \<noteq> Inl TypeError
       \<and> (bounded_by options tsne_iterations
            \<longrightarrow> (\<exists>pts. tSNE mathRandom embeddings documents options = Inr pts))
       \<and> (\<forall>pts. tSNE mathRandom embeddings documents options = Inr pts
              \<longrightarrow> list_all (\<lambda>p. isFinite (pt_x p) \<and> isFinite (pt_y p)) pts)"
proof -
  note a = iteration_account [OF assms]
  have f: "length Yc = length Y \<and> list_all finite_point Yc"
    using iteration_finite [of "(Y, gains, YStep, used)" "length Y" mathRandom P momentum eta
            earlyExaggeration iter] assms(3,4)
    by simp
  have t: "tSNE mathRandom embeddings documents options \<noteq> Inl TypeError"
    using tSNE_shape [of mathRandom embeddings documents options] by auto
  have r: "\<exists>pts. tSNE mathRandom embeddings documents options = Inr pts"
    if "bounded_by options tsne_iterations"
    using tSNE_returns [OF that] by blast
  have p: "list_all (\<lambda>p. isFinite (pt_x p) \<and> isFinite (pt_y p)) pts"
    if "tSNE mathRandom embeddings documents options = Inr pts" for pts
    using tSNE_finite [OF that] by (simp add: list_all_iff)
  show ?thesis
    using a f t r p by (intro conjI impI allI) (assumption | blast)+
qed

text \<open>
  Two coincident layout points, the first with a NaN step: it is reset to
  \<open>(-0.005, -0.005)\<close> by a \<open>Math.random\<close> that returns \<open>0\<close>, the second is not, and
  the layout is centred; the step of the first is still NaN.
\<close>

theorem tSNE_resets_non_finite_witness:
  "iteration (\<lambda>k. 0) [[Num 0, Num (1 / 2)], [Num (1 / 2), Num 0]] (Num (4 / 5)) (Num 500) (Num 4)
      ([(Num 0, Num 0), (Num 0, Num 0)], [(Num 1, Num 1), (Num 1, Num 1)],
       [(NaN, Num 0), (Num 0, Num 0)], 0) 0
   = ([(Num (- (1 / 400)), Num (- (1 / 400))), (Num (1 / 400), Num (1 / 400))],
      [(Num (6 / 5), Num (4 / 5)), (Num (4 / 5), Num (4 / 5))],
      [(NaN, Num 0), (Num 0, Num 0)], 2)
   \<and> (\<exists>Y'. [(Num (- (1 / 400)), Num (- (1 / 400))), (Num (1 / 400), Num (1 / 400))] = center Y'
          \<and> Y' ! 0 = (Num (- (1 / 200)), Num (- (1 / 200)))
          \<and> reset_range (fst (Y' ! 0)) \<and> reset_range (snd (Y' ! 0))
          \<and> Y' ! 1 = (Num 0, Num 0))
   \<and> list_all finite_point [(Num (- (1 / 400)), Num (- (1 / 400))), (Num (1 / 400), Num (1 / 400))]
   \<and> has_NaN ([(NaN, Num 0), (Num 0, Num 0)] ! 0)
   \<and> \<not> finite_point (stepped [(Num 0, Num 0), (Num 0, Num 0)] [(NaN, Num 0), (Num 0, Num 0)] 0)
   \<and> (\<exists>pts. tSNE (\<lambda>k. 0) [[Num 0], [Num 0]] [] None = Inr pts
          \<and> list_all (\<lambda>p. isFinite (pt_x p) \<and> isFinite (pt_y p)) pts)"
proof -
  let ?Y = "[(Num 0, Num 0), (Num 0, Num 0)]"
  let ?S = "[(NaN, Num 0), (Num 0, Num 0)]"
  let ?Yc = "[(Num (- (1 / 400)), Num (- (1 / 400))), (Num (1 / 400), Num (1 / 400))]"
  have e: "iteration (\<lambda>k. 0) [[Num 0, Num (1 / 2)], [Num (1 / 2), Num 0]] (Num (4 / 5)) (Num 500)
      (Num 4) (?Y, [(Num 1, Num 1), (Num 1, Num 1)], ?S, 0) 0
   = (?Yc, [(Num (6 / 5), Num (4 / 5)), (Num (4 / 5), Num (4 / 5))], ?S, 2)"
    by (rule iteration_example)
  have rnd: "\<forall>k::nat. 0 \<le> (0::real) \<and> (0::real) < 1" by simp
  have l: "length ?S = length ?Y" "?Y \<noteq> []" by simp_all
  note c = tSNE_resets_non_finite [where mathRandom = "\<lambda>k. 0", OF rnd l e,
             where embeddings = "[[Num 0], [Num 0]]" and documents = "[]" and options = None]
  have s0: "\<not> finite_point (stepped ?Y ?S 0)" "finite_point (stepped ?Y ?S 1)"
    "stepped ?Y ?S 1 = (Num 0, Num 0)"
    by (simp_all add: stepped_def finite_point_def)
  from c [THEN conjunct1] obtain Y' where y: "?Yc = center Y'"
    and a: "\<forall>i<length ?Y. if finite_point (stepped ?Y ?S i)
                  then Y' ! i = clamped (stepped ?Y ?S i)
                  else Y' ! i = (small 0, small 0)
                       \<and> reset_range (fst (Y' ! i)) \<and> reset_range (snd (Y' ! i))"
    by blast
  have i: "0 < length ?Y" "1 < length ?Y" by simp_all
  have sm: "small 0 = Num (- (1 / 200))" by (simp add: small_def)
  have cl: "clamped (Num 0, Num 0) = (Num 0, Num 0)"
    by (simp add: clamped_def Math_max_def Math_min_def)
  have a0: "Y' ! 0 = (small 0, small 0) \<and> reset_range (fst (Y' ! 0)) \<and> reset_range (snd (Y' ! 0))"
    using a [rule_format, OF i(1)] unfolding if_not_P [OF s0(1)] .
  have a1: "Y' ! 1 = clamped (stepped ?Y ?S 1)"
    using a [rule_format, OF i(2)] unfolding if_P [OF s0(2)] .
  have "Y' ! 0 = (Num (- (1 / 200)), Num (- (1 / 200)))
        \<and> reset_range (fst (Y' ! 0)) \<and> reset_range (snd (Y' ! 0))"
    using a0 unfolding sm .
  moreover have "Y' ! 1 = (Num 0, Num 0)"
    using a1 unfolding s0(3) cl .
  moreover have "list_all finite_point ?Yc" using c by simp
  moreover have "has_NaN (?S ! 0)" by (simp add: has_NaN_def)
  moreover have "\<exists>pts. tSNE (\<lambda>k. 0) [[Num 0], [Num 0]] [] None = Inr pts
          \<and> list_all (\<lambda>p. isFinite (pt_x p) \<and> isFinite (pt_y p)) pts"
  proof -
    have "bounded_by None tsne_iterations" by (simp add: bounded_by_def option_or_def)
    then obtain pts where "tSNE (\<lambda>k. 0) [[Num 0], [Num 0]] [] None = Inr pts"
      using c by blast
    then show ?thesis using c by blast
  qed
  ultimately show ?thesis using e y s0(1) by blast
qed

lemma bytes0: "float64_bytes (Num 0) = [0,0,0,0,0,0,0,0]"
  by (simp add: float64_bytes_def float64_bits_def upt_rec)

lemma seed00: "generateSeed [[Num 0], [Num 0]] = 1768495365"
  by (simp add: generateSeed_def bytes0)

lemma bit_length_bound: "n < 2 ^ k \<Longrightarrow> bit_length n \<le> k"
proof (induction n arbitrary: k rule: bit_length.induct)
  case (1 n)
  show ?case
  proof (cases "n = 0")
    case True then show ?thesis by (simp add: bit_length.simps)
  next
    case False
    then obtain k' where k: "k = Suc k'" using 1(2) by (cases k) auto
    then have "n div 2 < 2 ^ k'" using 1(2) by auto
    from 1(1) [OF False this] show ?thesis using False k by (subst bit_length.simps) simp
  qed
qed

lemma binary64_nat_exact: "n < 2 ^ 53 \<Longrightarrow> binary64_nat n = n"
  using bit_length_bound [of n 53] by (simp add: binary64_nat_def)

lemma next_values:
  "next 1768495365 = (2467147413 / 4294967296, 3600061178)"
  "next 3600061178 = (2635321702 / 4294967296, 5431626991)"
  "next 5431626991 = (2227858235 / 4294967296, 7263192804)"
  "next 7263192804 = (219627481 / 4294967296, 9094758617)"
  by (simp_all add: next_def Let_def binary64_nat_exact)

lemma init_layout_2:
  "init_layout 2 rng =
     (let (r0, rng0) = next rng; (r1, rng1) = next rng0;
          (r2, rng2) = next rng1; (r3, rng3) = next rng2
      in ([(small r0, small r1), (small r2, small r3)], rng3))"
  by (simp add: numeral_2_eq_2 Let_def split: prod.splits)

lemma init00: "init_layout 2 1768495365 =
   ([(Num (63932753 / 85899345920), Num (243919027 / 214748364800)),
     (Num (80374587 / 429496729600), Num (- (1927856167 / 429496729600)))], 9094758617)"
  by (simp add: init_layout_2 next_values small_def)


lemma next_range: "0 \<le> fst (next rng) \<and> fst (next rng) < 1"
proof -
  obtain w :: "32 word" where w: "fst (next rng) = real (unat w) / 4294967296"
    by (simp add: next_def Let_def)
  have "unat w < 4294967296"
    using unsigned_less [of w, where 'a = nat] by simp
  then have "real (unat w) < 4294967296"
    by (metis of_nat_less_iff of_nat_numeral)
  then show ?thesis
    unfolding w by (simp del: of_nat_unat)
qed

lemma negative_samples_two_points:
  assumes "length Y = 2"
  shows "fst (negative_samples rounds alpha weight 0 (Suc 0) (Y, rng)) = Y"
proof (induction rounds arbitrary: rng)
  case 0 then show ?case by simp
next
  case (Suc rounds)
  obtain r rng' where n: "next rng = (r, rng')" by (cases "next rng")
  then have "0 \<le> r" "r < 1" using next_range [of rng] by simp_all
  then have "0 \<le> \<lfloor>r * 2\<rfloor>" "\<lfloor>r * 2\<rfloor> < 2" by (simp_all add: floor_less_iff)
  then have "nat \<lfloor>r * 2\<rfloor> = 0 \<or> nat \<lfloor>r * 2\<rfloor> = Suc 0" by linarith
  then show ?case using Suc.IH [of rng'] n assms by (auto simp: Let_def)
qed

lemma attract_infinite:
  assumes "c < a" "d < b"
  shows "attract PInf (Num 1) 0 (Suc 0) [(Num a, Num b), (Num c, Num d)]
         = [(NInf, NInf), (PInf, PInf)]"
proof -
  let ?D = "1 + ((a - c) * (a - c) + (b - d) * (b - d))"
  have pos: "0 < ?D"
    by (smt (verit) zero_le_square)
  then have nz: "?D \<noteq> 0" by simp
  have "0 < 2 * (a - c) / ?D" "0 < 2 * (b - d) / ?D"
    using pos assms by simp_all
  then have g: "\<not> 0 < - (2 * (a - c) / ?D)" "- (2 * (a - c) / ?D) \<noteq> 0"
    "\<not> 0 < - (2 * (b - d) / ?D)" "- (2 * (b - d) / ?D) \<noteq> 0"
    by linarith+
  show ?thesis
    using nz g
    by (simp add: attract_def move_pair_def dist_sq_def Let_def upt2 coord_def set_coord_def
          js_sub_def)
qed


lemma epoch_infinite_rate:
  assumes "c < a" "d < b"
  shows "fst (epoch_step 5 PInf (Num 1) [(0, Suc 0, Num 1)]
                ([(Num a, Num b), (Num c, Num d)], rng, [0]) 0)
         = [(NInf, NInf), (PInf, PInf)]"
  using negative_samples_two_points [of "[(NInf, NInf), (PInf, PInf)]" 5 PInf "Num 1" rng]
  by (simp add: epoch_step_def seededShuffle_def Let_def process_edge_def
        attract_infinite [OF assms] case_prod_beta)

lemma uMAP_infinite_rate:
  "uMAP [[Num 0], [Num 0]] []
        (Some \<lparr>umap_nNeighbors = None, umap_nEpochs = Some (Num 1),
                umap_learningRate = Some PInf, umap_negativeSampleRate = None\<rparr>)
   = Inr [\<lparr>pt_x = NInf, pt_y = NInf, pt_title = ''Document 1'', pt_text = [], pt_index = 0\<rparr>,
          \<lparr>pt_x = PInf, pt_y = PInf, pt_title = ''Document 2'', pt_text = [], pt_index = 1\<rparr>]"
proof -
  let ?o = "Some \<lparr>umap_nNeighbors = None, umap_nEpochs = Some (Num 1),
                umap_learningRate = Some PInf, umap_negativeSampleRate = None\<rparr>"
  have e: "umap_edges [[Num 0], [Num 0]] ?o = [(0, Suc 0, Num 1)]"
    using umap_edges_two_zero [of ?o] by (simp add: option_or_def)
  have d: "decimal (Suc 0) = ''1''" "decimal (Suc (Suc 0)) = ''2''" by code_simp+
  have i: "init_layout (Suc (Suc 0)) 1768495365 =
     ([(Num (63932753 / 85899345920), Num (243919027 / 214748364800)),
       (Num (80374587 / 429496729600), Num (- (1927856167 / 429496729600)))], 9094758617)"
    using init00 by (simp add: numeral_2_eq_2)
  have f: "fst (epoch_step 5 PInf (Num 1) [(0, Suc 0, Num 1)]
                ([(Num (63932753 / 85899345920), Num (243919027 / 214748364800)),
                  (Num (80374587 / 429496729600), Num (- (1927856167 / 429496729600)))],
                 9094758617, [0]) 0) = [(NInf, NInf), (PInf, PInf)]"
    by (rule epoch_infinite_rate) simp_all
  show ?thesis
    using f
    by (simp add: uMAP_def Let_def option_or_def e seed00 i make_point_def
          title_of_def text_of_def d case_prod_beta del: init_layout.simps)
qed

section \<open>The bandwidth search of t-SNE\<close>

lemma bandwidth_midpoint:
  assumes "bandwidth lo" "bandwidth hi"
  shows "bandwidth (js_div (js_add lo hi) (Num 2))"
  using assms by (cases lo; cases hi) (simp_all add: bandwidth_def)

lemma search_sigma_bandwidth:
  assumes "bandwidth lo" "bandwidth hi" "bandwidth sigma"
  shows "bandwidth (snd (snd (search_sigma k drow i t (lo, hi, sigma))))"
  using assms
proof (induction k arbitrary: lo hi sigma)
  case 0 then show ?case by simp
next
  case (Suc k)
  note m = bandwidth_midpoint [OF Suc.prems(1,2)]
  show ?case
    using Suc.IH [OF Suc.prems(1) m m] Suc.IH [OF m Suc.prems(2) m]
    by (simp add: Let_def)
qed

lemma final_sigma_bandwidth: "bandwidth (final_sigma drow i t)"
  unfolding final_sigma_def
  by (rule search_sigma_bandwidth) (simp_all add: bandwidth_def)

section \<open>Dependence of t-SNE on the host's entropy\<close>

text \<open>
  Two points a million apart.  Every bandwidth the search tries is at most \<open>1000\<close>, so
  every kernel value is \<open>exp\<close> of at most \<open>-500000\<close>, that is \<open>0\<close>; both rows are
  \<open>0 / 0\<close>, and the joint probabilities are NaN.
\<close>

lemma sqrt_million: "sqrt 1000000000000 = 1000000"
  by (rule real_sqrt_unique) simp_all

lemma distances_far:
  "distances [[Num 0], [Num 1000000]] = [[Num 0, Num 1000000], [Num 1000000, Num 0]]"
  by (simp add: distances_def Let_def upt2 euclidean_def js_nth_def sqrt_million)

lemma kernel_underflow:
  assumes "bandwidth sigma"
  shows "Math_exp (js_div (js_neg (js_mul (Num 1000000) (Num 1000000)))
                          (js_mul (js_mul (Num 2) sigma) sigma)) = Num 0"
proof -
  obtain s where s: "sigma = Num s" "0 < s" "s \<le> 1000"
    using assms by (cases sigma) (auto simp: bandwidth_def)
  have "s * s \<le> 1000 * 1000" using s by (intro mult_mono) simp_all
  then have "746 * (2 * s * s) \<le> 1000000000000" by simp
  moreover have "0 < 2 * s * s" using s by simp
  ultimately have "746 \<le> 1000000000000 / (2 * s * s)"
    by (simp add: pos_le_divide_eq)
  then show ?thesis using s by simp
qed

lemma similarity_row_far:
  "similarity_row [Num 0, Num 1000000] 0 t = [Num 0, NaN]"
  "similarity_row [Num 1000000, Num 0] (Suc 0) t = [NaN, Num 0]"
  using kernel_underflow [OF final_sigma_bandwidth [of "[Num 0, Num 1000000]" 0 t]]
    kernel_underflow [OF final_sigma_bandwidth [of "[Num 1000000, Num 0]" "Suc 0" t]]
  by (simp_all add: similarity_row_def final_row_def kernel_row_def row_sum_def others_def
        upt2 Let_def)

lemma joint_P_far:
  "joint_P [[Num 0], [Num 1000000]] options = [[Num 0, NaN], [NaN, Num 0]]"
  by (simp add: joint_P_def similarities_def distances_far Let_def upt2 similarity_row_far)


text \<open>
  With NaN probabilities every gradient is NaN, every step is NaN, and every iteration
  resets both points from \<open>Math.random\<close>.
\<close>

lemma gradient_NaN:
  "gradient_of [[Num 0, NaN], [NaN, Num 0]] [y0, y1] sumQ ex 0 = (NaN, NaN)"
  "gradient_of [[Num 0, NaN], [NaN, Num 0]] [y0, y1] sumQ ex (Suc 0) = (NaN, NaN)"
  by (simp_all add: gradient_of_def others_def upt2 Let_def)

lemma new_step_NaN: "new_step m eta g NaN s = NaN"
  by (simp add: new_step_def)

lemma iteration_all_reset:
  "iteration mathRandom [[Num 0, NaN], [NaN, Num 0]] momentum eta ex
             ([y0, y1], [g0, g1], [s0, s1], used) iter =
     (center [(small (mathRandom used), small (mathRandom (used + 1))),
              (small (mathRandom (used + 2)), small (mathRandom (used + 3)))],
      [(new_gain (fst g0) NaN (fst s0), new_gain (snd g0) NaN (snd s0)),
       (new_gain (fst g1) NaN (fst s1), new_gain (snd g1) NaN (snd s1))],
      [(NaN, NaN), (NaN, NaN)], used + 4)"
  by (simp add: iteration_def Let_def upt2 update_point_def gradient_NaN new_step_NaN
        new_position_def case_prod_beta numeral_3_eq_3)


lemma center_two: "center [p, q] =
    [(js_sub (fst p) (js_div (js_add (js_add (Num 0) (fst p)) (fst q)) (Num 2)),
      js_sub (snd p) (js_div (js_add (js_add (Num 0) (snd p)) (snd q)) (Num 2))),
     (js_sub (fst q) (js_div (js_add (js_add (Num 0) (fst p)) (fst q)) (Num 2)),
      js_sub (snd q) (js_div (js_add (js_add (Num 0) (snd p)) (snd q)) (Num 2)))]"
  by (simp add: center_def Let_def)

lemma rounds_all_reset:
  "\<exists>g0 g1 s0 s1.
     foldl (iteration mathRandom [[Num 0, NaN], [NaN, Num 0]] momentum eta ex)
           ([y0, y1], [a0, a1], [b0, b1], 0) [0..<Suc k] =
       (center [(small (mathRandom (4 * k)), small (mathRandom (4 * k + 1))),
                (small (mathRandom (4 * k + 2)), small (mathRandom (4 * k + 3)))],
        [g0, g1], [s0, s1], 4 * k + 4)"
proof (induction k)
  case 0
  show ?case by (simp add: iteration_all_reset)
next
  case (Suc k)
  then obtain g0 g1 s0 s1 where
    ih: "foldl (iteration mathRandom [[Num 0, NaN], [NaN, Num 0]] momentum eta ex)
           ([y0, y1], [a0, a1], [b0, b1], 0) [0..<Suc k] =
       (center [(small (mathRandom (4 * k)), small (mathRandom (4 * k + 1))),
                (small (mathRandom (4 * k + 2)), small (mathRandom (4 * k + 3)))],
        [g0, g1], [s0, s1], 4 * k + 4)"
    by blast
  have "foldl (iteration mathRandom [[Num 0, NaN], [NaN, Num 0]] momentum eta ex)
           ([y0, y1], [a0, a1], [b0, b1], 0) [0..<Suc (Suc k)] =
        iteration mathRandom [[Num 0, NaN], [NaN, Num 0]] momentum eta ex
          (center [(small (mathRandom (4 * k)), small (mathRandom (4 * k + 1))),
                (small (mathRandom (4 * k + 2)), small (mathRandom (4 * k + 3)))],
           [g0, g1], [s0, s1], 4 * k + 4) (Suc k)"
  proof -
    have "[0..<Suc (Suc k)] = [0..<Suc k] @ [Suc k]" by simp
    then show ?thesis
      unfolding ih [symmetric] by (simp only: foldl_append foldl_Cons foldl_Nil)
  qed
  also have "\<dots> = (center [(small (mathRandom (4 * Suc k)), small (mathRandom (4 * Suc k + 1))),
                (small (mathRandom (4 * Suc k + 2)), small (mathRandom (4 * Suc k + 3)))],
        [(new_gain (fst g0) NaN (fst s0), new_gain (snd g0) NaN (snd s0)),
         (new_gain (fst g1) NaN (fst s1), new_gain (snd g1) NaN (snd s1))],
        [(NaN, NaN), (NaN, NaN)], 4 * Suc k + 4)"
    unfolding center_two iteration_all_reset by (simp add: add.commute)
  finally show ?case by blast
qed


lemma init_layout_two: "\<exists>y0 y1. fst (init_layout 2 rng) = [y0, y1]"
  by (simp add: init_layout_2 case_prod_beta)

lemma tSNE_far_default:
  "tSNE mathRandom [[Num 0], [Num 1000000]] [] None =
     Inr (map (\<lambda>i. make_point [] i
                  (center [(small (mathRandom 5996), small (mathRandom 5997)),
                           (small (mathRandom 5998), small (mathRandom 5999))] ! i))
              [0..<2])"
proof -
  obtain y0 y1 where y: "fst (init_layout 2 (generateSeed [[Num 0], [Num 1000000]])) = [y0, y1]"
    using init_layout_two by blast
  obtain g0 g1 s0 s1 where
    r: "foldl (iteration mathRandom [[Num 0, NaN], [NaN, Num 0]] (Num (8 / 10)) (Num 500) (Num 4))
           ([y0, y1], [(Num 1, Num 1), (Num 1, Num 1)], [(Num 0, Num 0), (Num 0, Num 0)], 0)
           [0..<Suc 1499] =
       (center [(small (mathRandom (4 * 1499)), small (mathRandom (4 * 1499 + 1))),
                (small (mathRandom (4 * 1499 + 2)), small (mathRandom (4 * 1499 + 3)))],
        [g0, g1], [s0, s1], 4 * 1499 + 4)"
    using rounds_all_reset [of mathRandom "Num (8 / 10)" "Num 500" "Num 4" y0 y1
             "(Num 1, Num 1)" "(Num 1, Num 1)" "(Num 0, Num 0)" "(Num 0, Num 0)" 1499]
    by blast
  have r': "foldl (iteration mathRandom [[Num 0, NaN], [NaN, Num 0]] (Num (4 / 5)) (Num 500) (Num 4))
           ([y0, y1], [(Num 1, Num 1), (Num 1, Num 1)], [(Num 0, Num 0), (Num 0, Num 0)], 0)
           [0..<1500] =
       (center [(small (mathRandom 5996), small (mathRandom 5997)),
                (small (mathRandom 5998), small (mathRandom 5999))],
        [g0, g1], [s0, s1], 6000)"
    using r by simp
  have l: "length [[Num 0], [Num (1000000::real)]] = 2" by simp
  have rep: "replicate 2 v = [v, v]" for v :: "number \<times> number"
    by (simp add: numeral_2_eq_2)
  show ?thesis
    unfolding tSNE_def Let_def l joint_P_far y option_or_def rep
    by (simp add: r')
qed


text \<open>
  C1 fails on the code.  Same vectors, same (default) options, two hosts whose
  \<open>Math.random\<close> differs in its draw number 5996 (the first draw of the last of the
  1500 iterations): \<open>tSNE\<close> returns different coordinates, and so does
  \<open>projectTo2D\<close> with \<open>algorithm = "tsne"\<close>.
\<close>

theorem tSNE_draws_from_Math_random:
  "tSNE (\<lambda>k. 0) [[Num 0], [Num 1000000]] [] None =
     Inr [\<lparr>pt_x = Num 0, pt_y = Num 0, pt_title = ''Document 1'', pt_text = [], pt_index = 0\<rparr>,
          \<lparr>pt_x = Num 0, pt_y = Num 0, pt_title = ''Document 2'', pt_text = [], pt_index = 1\<rparr>]
   \<and> tSNE (\<lambda>k. if k = 5996 then 1 / 2 else 0) [[Num 0], [Num 1000000]] [] None =
     Inr [\<lparr>pt_x = Num (1 / 400), pt_y = Num 0, pt_title = ''Document 1'', pt_text = [],
            pt_index = 0\<rparr>,
          \<lparr>pt_x = Num (- (1 / 400)), pt_y = Num 0, pt_title = ''Document 2'', pt_text = [],
            pt_index = 1\<rparr>]
   \<and> projectTo2D (\<lambda>k. 0) (Num 0) (Num 1) [[Num 0], [Num 1000000]] []
         \<lparr>opt_algorithm = Tsne, opt_params = None\<rparr>
     \<noteq> projectTo2D (\<lambda>k. if k = 5996 then 1 / 2 else 0) (Num 0) (Num 1)
         [[Num 0], [Num 1000000]] [] \<lparr>opt_algorithm = Tsne, opt_params = None\<rparr>"
proof -
  have d: "decimal (Suc 0) = ''1''" "decimal (Suc (Suc 0)) = ''2''" by code_simp+
  have a: "tSNE (\<lambda>k. 0) [[Num 0], [Num 1000000]] [] None =
     Inr [\<lparr>pt_x = Num 0, pt_y = Num 0, pt_title = ''Document 1'', pt_text = [], pt_index = 0\<rparr>,
          \<lparr>pt_x = Num 0, pt_y = Num 0, pt_title = ''Document 2'', pt_text = [], pt_index = 1\<rparr>]"
    by (simp add: tSNE_far_default center_two small_def upt2 make_point_def title_of_def
          text_of_def d)
  have b: "tSNE (\<lambda>k. if k = 5996 then 1 / 2 else 0) [[Num 0], [Num 1000000]] [] None =
     Inr [\<lparr>pt_x = Num (1 / 400), pt_y = Num 0, pt_title = ''Document 1'', pt_text = [],
            pt_index = 0\<rparr>,
          \<lparr>pt_x = Num (- (1 / 400)), pt_y = Num 0, pt_title = ''Document 2'', pt_text = [],
            pt_index = 1\<rparr>]"
    by (simp add: tSNE_far_default center_two small_def upt2 make_point_def title_of_def
          text_of_def d)
  have "projectTo2D (\<lambda>k. 0) (Num 0) (Num 1) [[Num 0], [Num 1000000]] []
         \<lparr>opt_algorithm = Tsne, opt_params = None\<rparr>
     \<noteq> projectTo2D (\<lambda>k. if k = 5996 then 1 / 2 else 0) (Num 0) (Num 1)
         [[Num 0], [Num 1000000]] [] \<lparr>opt_algorithm = Tsne, opt_params = None\<rparr>"
    by (simp add: projectTo2D_def Let_def params_of_def a b)
  with a b show ?thesis by blast
qed

section \<open>Non-finite values that persist\<close>

text \<open>Two points whose steps are NaN, or an exaggeration that is NaN while it applies.\<close>

lemma gradient_NaN_exaggeration:
  "gradient_of P [y0, y1] sumQ NaN 0 = (NaN, NaN)"
  "gradient_of P [y0, y1] sumQ NaN (Suc 0) = (NaN, NaN)"
  by (simp_all add: gradient_of_def others_def upt2 Let_def)

lemma iteration_NaN_exaggeration:
  assumes "iter < 350"
  shows "\<exists>a0 a1. iteration mathRandom P momentum eta NaN ([y0, y1], [g0, g1], [s0, s1], used) iter =
     (center [(small (mathRandom used), small (mathRandom (used + 1))),
              (small (mathRandom (used + 2)), small (mathRandom (used + 3)))],
      [a0, a1], [(NaN, NaN), (NaN, NaN)], used + 4)"
  using assms
  by (simp add: iteration_def Let_def upt2 update_point_def gradient_NaN_exaggeration new_step_NaN
        new_position_def case_prod_beta numeral_3_eq_3)

lemma iteration_NaN_steps:
  "\<exists>a0 a1. iteration mathRandom P momentum eta ex
             ([y0, y1], [g0, g1], [(NaN, NaN), (NaN, NaN)], used) iter =
     (center [(small (mathRandom used), small (mathRandom (used + 1))),
              (small (mathRandom (used + 2)), small (mathRandom (used + 3)))],
      [a0, a1], [(NaN, NaN), (NaN, NaN)], used + 4)"
  by (simp add: iteration_def Let_def upt2 update_point_def new_step_NaN_step
        new_position_def case_prod_beta numeral_3_eq_3)

lemma rounds_NaN_exaggeration:
  "\<exists>a0 a1.
     foldl (iteration mathRandom P momentum eta NaN) ([y0, y1], [g0, g1], [s0, s1], 0) [0..<Suc k] =
       (center [(small (mathRandom (4 * k)), small (mathRandom (4 * k + 1))),
                (small (mathRandom (4 * k + 2)), small (mathRandom (4 * k + 3)))],
        [a0, a1], [(NaN, NaN), (NaN, NaN)], 4 * k + 4)"
proof (induction k)
  case 0
  show ?case
    using iteration_NaN_exaggeration [of 0 mathRandom P momentum eta y0 y1 g0 g1 s0 s1 0]
    by simp
next
  case (Suc k)
  then obtain a0 a1 where
    ih: "foldl (iteration mathRandom P momentum eta NaN) ([y0, y1], [g0, g1], [s0, s1], 0) [0..<Suc k] =
       (center [(small (mathRandom (4 * k)), small (mathRandom (4 * k + 1))),
                (small (mathRandom (4 * k + 2)), small (mathRandom (4 * k + 3)))],
        [a0, a1], [(NaN, NaN), (NaN, NaN)], 4 * k + 4)"
    by blast
  obtain z0 z1 where c: "center [(small (mathRandom (4 * k)), small (mathRandom (4 * k + 1))),
                (small (mathRandom (4 * k + 2)), small (mathRandom (4 * k + 3)))] = [z0, z1]"
    using center_two by blast
  have "foldl (iteration mathRandom P momentum eta NaN) ([y0, y1], [g0, g1], [s0, s1], 0)
           [0..<Suc (Suc k)] =
        iteration mathRandom P momentum eta NaN
          ([z0, z1], [a0, a1], [(NaN, NaN), (NaN, NaN)], 4 * k + 4) (Suc k)"
  proof -
    have "[0..<Suc (Suc k)] = [0..<Suc k] @ [Suc k]" by simp
    then show ?thesis
      unfolding c [symmetric] ih [symmetric] by (simp only: foldl_append foldl_Cons foldl_Nil)
  qed
  moreover obtain b0 b1 where
    "iteration mathRandom P momentum eta NaN
          ([z0, z1], [a0, a1], [(NaN, NaN), (NaN, NaN)], 4 * k + 4) (Suc k)
     = (center [(small (mathRandom (4 * k + 4)), small (mathRandom (4 * k + 4 + 1))),
                (small (mathRandom (4 * k + 4 + 2)), small (mathRandom (4 * k + 4 + 3)))],
        [b0, b1], [(NaN, NaN), (NaN, NaN)], 4 * k + 4 + 4)"
    using iteration_NaN_steps [of mathRandom P momentum eta NaN z0 z1 a0 a1 "4 * k + 4" "Suc k"]
    by blast
  ultimately show ?case by (simp add: add.commute add.left_commute)
qed

lemma tSNE_NaN_exaggeration:
  "tSNE mathRandom [[Num 0], [Num 0]] []
        (Some \<lparr>tsne_perplexity = None, tsne_learningRate = None, tsne_iterations = None,
                tsne_earlyExaggeration = Some NaN, tsne_momentum = None\<rparr>) =
     Inr (map (\<lambda>i. make_point [] i
                  (center [(small (mathRandom 5996), small (mathRandom 5997)),
                           (small (mathRandom 5998), small (mathRandom 5999))] ! i))
              [0..<2])"
proof -
  let ?o = "Some \<lparr>tsne_perplexity = None, tsne_learningRate = None, tsne_iterations = None,
                tsne_earlyExaggeration = Some NaN, tsne_momentum = None\<rparr>"
  obtain y0 y1 where y: "fst (init_layout 2 (generateSeed [[Num 0], [Num 0]])) = [y0, y1]"
    using init_layout_two by blast
  obtain a0 a1 where
    r: "foldl (iteration mathRandom (joint_P [[Num 0], [Num 0]] ?o) (Num (8 / 10)) (Num 500) NaN)
           ([y0, y1], [(Num 1, Num 1), (Num 1, Num 1)], [(Num 0, Num 0), (Num 0, Num 0)], 0)
           [0..<Suc 1499] =
       (center [(small (mathRandom (4 * 1499)), small (mathRandom (4 * 1499 + 1))),
                (small (mathRandom (4 * 1499 + 2)), small (mathRandom (4 * 1499 + 3)))],
        [a0, a1], [(NaN, NaN), (NaN, NaN)], 4 * 1499 + 4)"
    using rounds_NaN_exaggeration [of mathRandom "joint_P [[Num 0], [Num 0]] ?o" "Num (8 / 10)"
             "Num 500" y0 y1 "(Num 1, Num 1)" "(Num 1, Num 1)" "(Num 0, Num 0)" "(Num 0, Num 0)" 1499]
    by blast
  have r': "foldl (iteration mathRandom (joint_P [[Num 0], [Num 0]] ?o) (Num (4 / 5)) (Num 500) NaN)
           ([y0, y1], [(Num 1, Num 1), (Num 1, Num 1)], [(Num 0, Num 0), (Num 0, Num 0)], 0)
           [0..<1500] =
       (center [(small (mathRandom 5996), small (mathRandom 5997)),
                (small (mathRandom 5998), small (mathRandom 5999))],
        [a0, a1], [(NaN, NaN), (NaN, NaN)], 6000)"
    using r by simp
  have l: "length [[Num 0], [Num (0::real)]] = 2" by simp
  have rep: "replicate 2 v = [v, v]" for v :: "number \<times> number"
    by (simp add: numeral_2_eq_2)
  show ?thesis
    unfolding tSNE_def Let_def l y option_or_def rep
    by (simp add: r')
qed

text \<open>
  C8 fails on the code in two ways.  \<open>uMAP\<close> has no reset: two coincident points, one
  epoch, learning rate \<open>Infinity\<close>: the one attractive update sends the two points to
  opposite infinities, every negative sample draws one of the two end points and is
  skipped, and the infinite coordinates are returned.  In \<open>tSNE\<close> a NaN step is carried
  from iteration to iteration: two coincident points with \<open>earlyExaggeration\<close> NaN have
  NaN gradients while the exaggeration applies (iterations 0 to 349); from iteration 350 on
  the exaggeration is \<open>1\<close> and probabilities and gradients are finite, but the steps are
  still NaN and both points are reset in every iteration up to the last: the result is
  made of the draws 5996 to 5999 of \<open>Math.random\<close>, the four draws of iteration 1499.
\<close>

theorem non_finite_values_persist_counterexample:
  "uMAP [[Num 0], [Num 0]] []
        (Some \<lparr>umap_nNeighbors = None, umap_nEpochs = Some (Num 1),
                umap_learningRate = Some PInf, umap_negativeSampleRate = None\<rparr>)
   = Inr [\<lparr>pt_x = NInf, pt_y = NInf, pt_title = ''Document 1'', pt_text = [], pt_index = 0\<rparr>,
          \<lparr>pt_x = PInf, pt_y = PInf, pt_title = ''Document 2'', pt_text = [], pt_index = 1\<rparr>]
   \<and> tSNE (\<lambda>k. if k = 5996 then 1 / 2 else 0) [[Num 0], [Num 0]] []
        (Some \<lparr>tsne_perplexity = None, tsne_learningRate = None, tsne_iterations = None,
                tsne_earlyExaggeration = Some NaN, tsne_momentum = None\<rparr>)
     = Inr [\<lparr>pt_x = Num (1 / 400), pt_y = Num 0, pt_title = ''Document 1'', pt_text = [],
              pt_index = 0\<rparr>,
            \<lparr>pt_x = Num (- (1 / 400)), pt_y = Num 0, pt_title = ''Document 2'', pt_text = [],
              pt_index = 1\<rparr>]"
proof -
  have d: "decimal (Suc 0) = ''1''" "decimal (Suc (Suc 0)) = ''2''" by code_simp+
  have "tSNE (\<lambda>k. if k = 5996 then 1 / 2 else 0) [[Num 0], [Num 0]] []
        (Some \<lparr>tsne_perplexity = None, tsne_learningRate = None, tsne_iterations = None,
                tsne_earlyExaggeration = Some NaN, tsne_momentum = None\<rparr>)
     = Inr [\<lparr>pt_x = Num (1 / 400), pt_y = Num 0, pt_title = ''Document 1'', pt_text = [],
              pt_index = 0\<rparr>,
            \<lparr>pt_x = Num (- (1 / 400)), pt_y = Num 0, pt_title = ''Document 2'', pt_text = [],
              pt_index = 1\<rparr>]"
    by (simp add: tSNE_NaN_exaggeration center_two small_def upt2 make_point_def title_of_def
          text_of_def d)
  then show ?thesis using uMAP_infinite_rate by simp
qed

section \<open>The joint probabilities of t-SNE\<close>












lemma length_distances [simp]:
  "length (distances embeddings) = length embeddings"
  "i < length embeddings \<Longrightarrow> length (distances embeddings ! i) = length embeddings"
  by (simp_all add: distances_def Let_def)













section \<open>Length, order and indices: the result\<close>

text \<open>
  C9.  Whenever the orchestrator or a projector returns, its points are as many as the
  input vectors, the point at position \<open>i\<close> has index \<open>i\<close> and the title and text of
  document \<open>i\<close>; on two or more vectors the orchestrator's points are the projector's,
  unchanged, whatever their coordinates are.  The orchestrator and the projectors do
  return when no loop bound among the options is \<open>Infinity\<close> (\<open>incrementalPCA\<close>:
  on a non-empty dataset).
\<close>

theorem projection_in_input_order:
  "(projectTo2D mathRandom startTime endTime embeddings documents options = Inr r
      \<longrightarrow> in_input_order documents (length embeddings) (points r))
   \<and> (tSNE mathRandom embeddings documents tsneOptions = Inr pts1
      \<longrightarrow> in_input_order documents (length embeddings) pts1)
   \<and> (uMAP embeddings documents umapOptions = Inr pts2
      \<longrightarrow> in_input_order documents (length embeddings) pts2)
   \<and> (incrementalPCA embeddings documents pcaOptions = Inr pts3
      \<longrightarrow> in_input_order documents (length embeddings) pts3)
   \<and> (2 \<le> length embeddings \<longrightarrow>
        ran (projectTo2D mathRandom startTime endTime embeddings documents options)
          (case opt_algorithm options of
             Umap \<Rightarrow> uMAP embeddings documents (params_of options umap)
           | Tsne \<Rightarrow> tSNE mathRandom embeddings documents (params_of options tsne)
           | Pca \<Rightarrow> incrementalPCA embeddings documents (params_of options pca)
           | Auto \<Rightarrow> (if length embeddings > 8000
                      then incrementalPCA embeddings documents (params_of options pca)
                      else uMAP embeddings documents (params_of options umap)))
          (case opt_algorithm options of
             Umap \<Rightarrow> ''UMAP'' | Tsne \<Rightarrow> ''TSNE'' | Pca \<Rightarrow> ''PCA''
           | Auto \<Rightarrow> (if length embeddings > 8000 then ''PCA'' else ''UMAP'')))
   \<and> (bounded_by (params_of options tsne) tsne_iterations
        \<and> bounded_by (params_of options umap) umap_nEpochs
        \<and> bounded_by (params_of options umap) umap_negativeSampleRate
        \<and> bounded_by (params_of options pca) pca_powerIterations
      \<longrightarrow> (\<exists>r'. projectTo2D mathRandom startTime endTime embeddings documents options = Inr r'))
   \<and> (bounded_by tsneOptions tsne_iterations
      \<longrightarrow> (\<exists>pts. tSNE mathRandom embeddings documents tsneOptions = Inr pts))
   \<and> (bounded_by umapOptions umap_nEpochs \<and> bounded_by umapOptions umap_negativeSampleRate
      \<longrightarrow> (\<exists>pts. uMAP embeddings documents umapOptions = Inr pts))
   \<and> (embeddings \<noteq> [] \<and> bounded_by pcaOptions pca_powerIterations
      \<longrightarrow> (\<exists>pts. incrementalPCA embeddings documents pcaOptions = Inr pts))"
proof -
  have "ran (projectTo2D mathRandom startTime endTime embeddings documents options)
          (case opt_algorithm options of
             Umap \<Rightarrow> uMAP embeddings documents (params_of options umap)
           | Tsne \<Rightarrow> tSNE mathRandom embeddings documents (params_of options tsne)
           | Pca \<Rightarrow> incrementalPCA embeddings documents (params_of options pca)
           | Auto \<Rightarrow> (if length embeddings > 8000
                      then incrementalPCA embeddings documents (params_of options pca)
                      else uMAP embeddings documents (params_of options umap)))
          (case opt_algorithm options of
             Umap \<Rightarrow> ''UMAP'' | Tsne \<Rightarrow> ''TSNE'' | Pca \<Rightarrow> ''PCA''
           | Auto \<Rightarrow> (if length embeddings > 8000 then ''PCA'' else ''UMAP''))"
    if "2 \<le> length embeddings"
    using that
    by (cases "opt_algorithm options")
       (auto simp: projectTo2D_def ran_def Let_def toUpperCase_names split: sum.splits)
  moreover note projectTo2D_in_input_order [of mathRandom startTime endTime embeddings documents options r]
    tSNE_in_input_order [of mathRandom embeddings documents tsneOptions pts1]
    uMAP_in_input_order [of embeddings documents umapOptions pts2]
    incrementalPCA_in_input_order [of embeddings documents pcaOptions pts3]
    projectTo2D_returns [of options mathRandom startTime endTime embeddings documents]
    tSNE_returns [of tsneOptions mathRandom embeddings documents]
    uMAP_returns [of umapOptions embeddings documents]
    incrementalPCA_returns_bounded [of embeddings pcaOptions documents]
  ultimately show ?thesis
    by (intro conjI impI) (elim conjE; assumption | blast)+
qed


text \<open>
  The end-to-end example of the specification: three vectors, titles A, B and C, PCA
  with five power iterations; and a run of UMAP whose coordinates are infinite and are
  returned as they are.
\<close>

theorem projection_in_input_order_witness:
  "\<exists>r pts1 pts2 pts3 r'.
     projectTo2D (\<lambda>k. 0) (Num 0) (Num 1)
        [[Num 0, Num 0], [Num 1, Num 0], [Num 0, Num 1]]
        [\<lparr>doc_title = ''A'', doc_text = ''a''\<rparr>, \<lparr>doc_title = ''B'', doc_text = ''b''\<rparr>,
         \<lparr>doc_title = ''C'', doc_text = ''c''\<rparr>]
        \<lparr>opt_algorithm = Pca,
          opt_params = Some \<lparr>umap = None, tsne = None,
                              pca = Some \<lparr>pca_powerIterations = Some (Num 5)\<rparr>\<rparr>\<rparr> = Inr r
     \<and> map pt_index (points r) = [0, 1, 2]
     \<and> map pt_title (points r) = [''A'', ''B'', ''C'']
     \<and> incrementalPCA [[Num 0, Num 0], [Num 1, Num 0], [Num 0, Num 1]]
        [\<lparr>doc_title = ''A'', doc_text = ''a''\<rparr>, \<lparr>doc_title = ''B'', doc_text = ''b''\<rparr>,
         \<lparr>doc_title = ''C'', doc_text = ''c''\<rparr>]
        (Some \<lparr>pca_powerIterations = Some (Num 5)\<rparr>) = Inr pts3
     \<and> points r = pts3 \<and> algorithm r = ''PCA''
     \<and> tSNE (\<lambda>k. 0) [[Num 0, Num 0], [Num 1, Num 0], [Num 0, Num 1]]
        [\<lparr>doc_title = ''A'', doc_text = ''a''\<rparr>, \<lparr>doc_title = ''B'', doc_text = ''b''\<rparr>,
         \<lparr>doc_title = ''C'', doc_text = ''c''\<rparr>] None = Inr pts1
     \<and> map pt_index pts1 = [0, 1, 2]
     \<and> uMAP [[Num 0, Num 0], [Num 1, Num 0], [Num 0, Num 1]]
        [\<lparr>doc_title = ''A'', doc_text = ''a''\<rparr>, \<lparr>doc_title = ''B'', doc_text = ''b''\<rparr>,
         \<lparr>doc_title = ''C'', doc_text = ''c''\<rparr>] None = Inr pts2
     \<and> map pt_index pts2 = [0, 1, 2]
     \<and> projectTo2D (\<lambda>k. 0) (Num 0) (Num 1) [[Num 0], [Num 0]] []
        \<lparr>opt_algorithm = Umap,
          opt_params = Some \<lparr>umap = Some \<lparr>umap_nNeighbors = None, umap_nEpochs = Some (Num 1),
                                            umap_learningRate = Some PInf,
                                            umap_negativeSampleRate = None\<rparr>,
                              tsne = None, pca = None\<rparr>\<rparr> = Inr r'
     \<and> points r' =
        [\<lparr>pt_x = NInf, pt_y = NInf, pt_title = ''Document 1'', pt_text = [], pt_index = 0\<rparr>,
         \<lparr>pt_x = PInf, pt_y = PInf, pt_title = ''Document 2'', pt_text = [], pt_index = 1\<rparr>]"
proof -
  let ?E = "[[Num 0, Num 0], [Num 1, Num 0], [Num 0, Num 1]]"
  let ?D = "[\<lparr>doc_title = ''A'', doc_text = ''a''\<rparr>, \<lparr>doc_title = ''B'', doc_text = ''b''\<rparr>,
             \<lparr>doc_title = ''C'', doc_text = ''c''\<rparr>]"
  let ?P = "Some \<lparr>pca_powerIterations = Some (Num 5)\<rparr>"
  let ?O = "\<lparr>opt_algorithm = Pca,
             opt_params = Some \<lparr>umap = None, tsne = None, pca = ?P\<rparr>\<rparr>"
  note c = projection_in_input_order [where embeddings = ?E and documents = ?D and options = ?O
                 and mathRandom = "\<lambda>k. 0" and startTime = "Num 0" and endTime = "Num 1"
                 and tsneOptions = None and umapOptions = None and pcaOptions = ?P]
  have b: "bounded_by (params_of ?O tsne) tsne_iterations"
    "bounded_by (params_of ?O umap) umap_nEpochs"
    "bounded_by (params_of ?O umap) umap_negativeSampleRate"
    "bounded_by (params_of ?O pca) pca_powerIterations"
    "bounded_by None tsne_iterations" "bounded_by None umap_nEpochs"
    "bounded_by None umap_negativeSampleRate" "bounded_by ?P pca_powerIterations"
    by (simp_all add: bounded_by_def params_of_def option_or_def)
  obtain r where r: "projectTo2D (\<lambda>k. 0) (Num 0) (Num 1) ?E ?D ?O = Inr r"
    using c b by blast
  obtain pts1 where p1: "tSNE (\<lambda>k. 0) ?E ?D None = Inr pts1"
    using c b by blast
  obtain pts2 where p2: "uMAP ?E ?D None = Inr pts2"
    using c b by blast
  obtain pts3 where p3: "incrementalPCA ?E ?D ?P = Inr pts3"
    using c b by blast
  have d: "map (\<lambda>i. (i, title_of ?D i, text_of ?D i)) [0..<length ?E]
           = [(0, ''A'', ''a''), (1, ''B'', ''b''), (2, ''C'', ''c'')]"
    by (simp add: title_of_def text_of_def upt_rec)
  have o: "in_input_order ?D (length ?E) (points r)" "in_input_order ?D (length ?E) pts1"
    "in_input_order ?D (length ?E) pts2"
    using c [where r = r and ?pts1.0 = pts1 and ?pts2.0 = pts2 and ?pts3.0 = pts3] r p1 p2
    by blast+
  have i: "map pt_index ps = [0, 1, 2] \<and> map pt_title ps = [''A'', ''B'', ''C'']"
    if "in_input_order ?D (length ?E) ps" for ps
  proof -
    have e: "map (\<lambda>p. (pt_index p, pt_title p, pt_text p)) ps
               = [(0, ''A'', ''a''), (1, ''B'', ''b''), (2, ''C'', ''c'')]"
      using that d unfolding in_input_order_def by simp
    have "map pt_index ps = map fst (map (\<lambda>p. (pt_index p, pt_title p, pt_text p)) ps)"
      "map pt_title ps = map (fst \<circ> snd) (map (\<lambda>p. (pt_index p, pt_title p, pt_text p)) ps)"
      by (simp_all add: comp_def)
    then show ?thesis unfolding e by simp
  qed
  have "ran (projectTo2D (\<lambda>k. 0) (Num 0) (Num 1) ?E ?D ?O) (incrementalPCA ?E ?D ?P) ''PCA''"
    using c by (simp add: params_of_def)
  then have q: "points r = pts3 \<and> algorithm r = ''PCA''"
    using r p3 by (simp add: ran_def)
  let ?U = "Some \<lparr>umap_nNeighbors = None, umap_nEpochs = Some (Num 1),
                   umap_learningRate = Some PInf, umap_negativeSampleRate = None\<rparr>"
  let ?O' = "\<lparr>opt_algorithm = Umap,
              opt_params = Some \<lparr>umap = ?U, tsne = None, pca = None\<rparr>\<rparr>"
  have "ran (projectTo2D (\<lambda>k. 0) (Num 0) (Num 1) [[Num 0], [Num 0]] [] ?O')
            (uMAP [[Num 0], [Num 0]] [] ?U) ''UMAP''"
    using projection_in_input_order [where embeddings = "[[Num 0], [Num 0]]" and documents = "[]"
            and options = ?O' and mathRandom = "\<lambda>k. 0" and startTime = "Num 0"
            and endTime = "Num 1"]
    by (simp add: params_of_def)
  then obtain r' where r': "projectTo2D (\<lambda>k. 0) (Num 0) (Num 1) [[Num 0], [Num 0]] [] ?O' = Inr r'"
    "points r' =
        [\<lparr>pt_x = NInf, pt_y = NInf, pt_title = ''Document 1'', pt_text = [], pt_index = 0\<rparr>,
         \<lparr>pt_x = PInf, pt_y = PInf, pt_title = ''Document 2'', pt_text = [], pt_index = 1\<rparr>]"
    unfolding uMAP_infinite_rate by (auto simp: ran_def split: sum.splits)
  with q r p1 p2 p3 i [OF o(1)] i [OF o(2)] i [OF o(3)] show ?thesis
    by (intro exI [of _ r] exI [of _ pts1] exI [of _ pts2] exI [of _ pts3] exI [of _ r']) simp
qed

end
